theory Spec2Isabelle
  imports Complex_Main "HOL-Library.Log_Nat"
begin

section \<open>Values of the host language\<close>

text \<open>
  The program is TypeScript. A string is a list of code units; a \<^typ>\<open>char\<close> is a code
  unit below 256, so the line separators U+2028 and U+2029 and the white space above
  U+00FF are outside the model.

  A number is an IEEE double: \<open>NaN\<close>, one of the two infinities, or a finite value, kept
  as the rational it denotes. The two zeros are not told apart; the program only compares
  numbers and tests them for truth, where \<open>-0\<close> and \<open>+0\<close> agree.
\<close>

datatype jsnum = NaN | PInf | NInf | Fin rat

fun js_neg :: "jsnum \<Rightarrow> jsnum" where
  "js_neg NaN = NaN"
| "js_neg PInf = NInf"
| "js_neg NInf = PInf"
| "js_neg (Fin a) = Fin (- a)"

text \<open>
  The Number value for a real number, as the language defines the result of reading a
  literal and of an arithmetic operator: the nearest double, a tie going to the even
  significand, and an infinity from \<open>2^1024 - 2^970\<close> on. Every finite double is a
  multiple of \<open>2^-1074\<close>; \<open>y\<close> is the magnitude in that unit, \<open>n\<close> its integer part,
  \<open>s\<close> the number of low bits that a significand of 53 bits cannot hold, \<open>m\<close> the
  significand.
\<close>

fun bitLength :: "nat \<Rightarrow> nat" where
  "bitLength n = (if n = 0 then 0 else Suc (bitLength (n div 2)))"

declare bitLength.simps [simp del]

definition roundHalfEven :: "rat \<Rightarrow> nat" where
  "roundHalfEven y =
     (let f = nat \<lfloor>y\<rfloor>; r = y - of_nat f
      in if r < 1 / 2 then f else if 1 / 2 < r then f + 1 else if even f then f else f + 1)"

definition doubleOfMagnitude :: "rat \<Rightarrow> jsnum" where
  "doubleOfMagnitude x =
     (let y = x * 2 ^ 1074;
          n = nat \<lfloor>y\<rfloor>;
          s = (if n < 2 ^ 53 then 0 else bitLength n - 53);
          m = roundHalfEven (y / 2 ^ s)
      in if 2 ^ 2098 \<le> m * 2 ^ s then PInf else Fin (of_nat (m * 2 ^ s) / 2 ^ 1074))"

definition numberValue :: "rat \<Rightarrow> jsnum" where
  "numberValue x = (if x < 0 then js_neg (doubleOfMagnitude (- x)) else doubleOfMagnitude x)"


text \<open>The subtraction operator on numbers.\<close>

fun js_sub :: "jsnum \<Rightarrow> jsnum \<Rightarrow> jsnum" where
  "js_sub NaN _ = NaN"
| "js_sub _ NaN = NaN"
| "js_sub PInf PInf = NaN"
| "js_sub NInf NInf = NaN"
| "js_sub PInf _ = PInf"
| "js_sub NInf _ = NInf"
| "js_sub (Fin _) PInf = NInf"
| "js_sub (Fin _) NInf = PInf"
| "js_sub (Fin a) (Fin b) = numberValue (a - b)"

text \<open>The relational operators: every comparison with \<open>NaN\<close> is false.\<close>

fun js_lt :: "jsnum \<Rightarrow> jsnum \<Rightarrow> bool" where
  "js_lt NaN _ = False"
| "js_lt _ NaN = False"
| "js_lt PInf _ = False"
| "js_lt _ NInf = False"
| "js_lt NInf _ = True"
| "js_lt (Fin _) PInf = True"
| "js_lt (Fin a) (Fin b) = (a < b)"

definition js_le :: "jsnum \<Rightarrow> jsnum \<Rightarrow> bool" where
  "js_le a b = (a \<noteq> NaN \<and> b \<noteq> NaN \<and> \<not> js_lt b a)"

definition js_gt :: "jsnum \<Rightarrow> jsnum \<Rightarrow> bool" where
  "js_gt a b = js_lt b a"

definition js_ge :: "jsnum \<Rightarrow> jsnum \<Rightarrow> bool" where
  "js_ge a b = js_le b a"

text \<open>Strict equality \<open>===\<close> of two numbers.\<close>

definition js_eq :: "jsnum \<Rightarrow> jsnum \<Rightarrow> bool" where
  "js_eq a b = (a \<noteq> NaN \<and> b \<noteq> NaN \<and> a = b)"

definition isNaN :: "jsnum \<Rightarrow> bool" where
  "isNaN n = (n = NaN)"

text \<open>
  What an attribute of a record can hold. \<open>Obj\<close> is any object that is not an array
  (a plain object, a function, a date): the program never looks inside one.
\<close>

datatype jsvalue =
    Undefined
  | Null
  | Bool bool
  | Num jsnum
  | Str string
  | Arr "jsvalue list"
  | Obj

fun isArray :: "jsvalue \<Rightarrow> bool" where
  "isArray (Arr _) = True"
| "isArray _ = False"

text \<open>\<open>ToBoolean\<close>: what \<open>!\<close>, \<open>&&\<close>, \<open>||\<close>, \<open>?:\<close> and \<open>every\<close> read of a value.\<close>

fun truthy :: "jsvalue \<Rightarrow> bool" where
  "truthy Undefined = False"
| "truthy Null = False"
| "truthy (Bool b) = b"
| "truthy (Num n) = (n \<noteq> NaN \<and> n \<noteq> Fin 0)"
| "truthy (Str s) = (s \<noteq> [])"
| "truthy (Arr _) = True"
| "truthy Obj = True"

definition js_not :: "jsvalue \<Rightarrow> jsvalue" where
  "js_not a = Bool (\<not> truthy a)"

definition js_and :: "jsvalue \<Rightarrow> jsvalue \<Rightarrow> jsvalue" where
  "js_and a b = (if truthy a then b else a)"

definition js_or :: "jsvalue \<Rightarrow> jsvalue \<Rightarrow> jsvalue" where
  "js_or a b = (if truthy a then a else b)"

text \<open>The scalar kinds: absent, null, boolean, number and string.\<close>

fun isScalar :: "jsvalue \<Rightarrow> bool" where
  "isScalar (Arr _) = False"
| "isScalar Obj = False"
| "isScalar _ = True"

section \<open>\<open>Number\<close> applied to a string\<close>

text \<open>
  \<open>Number(value)\<close> on a string is the language's \<open>StringToNumber\<close>: white space is
  trimmed; the empty string is \<open>0\<close>; then either a binary, octal or hexadecimal integer
  (\<open>0b\<close>, \<open>0o\<close>, \<open>0x\<close>, unsigned), or an optionally signed decimal literal
  (\<open>Infinity\<close>, or digits with an optional fraction and an optional exponent); anything
  else is \<open>NaN\<close>. The value of the literal is rounded to a double.
\<close>

definition isStrWhiteSpaceChar :: "char \<Rightarrow> bool" where
  "isStrWhiteSpaceChar c =
     (c = CHR 0x09 \<or> c = CHR 0x0A \<or> c = CHR 0x0B \<or> c = CHR 0x0C \<or> c = CHR 0x0D
      \<or> c = CHR 0x20 \<or> c = CHR 0xA0)"

definition trimString :: "string \<Rightarrow> string" where
  "trimString s =
     rev (dropWhile isStrWhiteSpaceChar (rev (dropWhile isStrWhiteSpaceChar s)))"

definition isDecimalDigit :: "char \<Rightarrow> bool" where
  "isDecimalDigit c = (let n = (of_char c :: nat) in 48 \<le> n \<and> n \<le> 57)"

text \<open>The value of a digit in a base up to 16, if the character is one.\<close>

definition digitValue :: "nat \<Rightarrow> char \<Rightarrow> nat option" where
  "digitValue base c =
     (let n = (of_char c :: nat);
          d = (if 48 \<le> n \<and> n \<le> 57 then Some (n - 48)
               else if 97 \<le> n \<and> n \<le> 102 then Some (n - 87)
               else if 65 \<le> n \<and> n \<le> 70 then Some (n - 55)
               else None)
      in case d of None \<Rightarrow> None | Some v \<Rightarrow> if v < base then Some v else None)"

text \<open>A non-empty run of digits of the base, read to the end of the string.\<close>

fun digitsValue :: "nat \<Rightarrow> nat \<Rightarrow> string \<Rightarrow> nat option" where
  "digitsValue base acc [] = Some acc"
| "digitsValue base acc (c # cs) =
     (case digitValue base c of
        None \<Rightarrow> None
      | Some d \<Rightarrow> digitsValue base (base * acc + d) cs)"

definition integerValue :: "nat \<Rightarrow> string \<Rightarrow> nat option" where
  "integerValue base s = (if s = [] then None else digitsValue base 0 s)"

text \<open>\<open>NonDecimalIntegerLiteral\<close>: a prefix \<open>0b\<close>, \<open>0o\<close> or \<open>0x\<close> in either case.\<close>

definition nonDecimalValue :: "string \<Rightarrow> nat option" where
  "nonDecimalValue s =
     (case s of
        z # p # ds \<Rightarrow>
          if z \<noteq> CHR ''0'' then None
          else if p = CHR ''b'' \<or> p = CHR ''B'' then integerValue 2 ds
          else if p = CHR ''o'' \<or> p = CHR ''O'' then integerValue 8 ds
          else if p = CHR ''x'' \<or> p = CHR ''X'' then integerValue 16 ds
          else None
      | _ \<Rightarrow> None)"

text \<open>\<open>SignedInteger\<close>, the digits of an exponent.\<close>

definition signedIntegerValue :: "string \<Rightarrow> int option" where
  "signedIntegerValue s =
     (case s of
        [] \<Rightarrow> None
      | c # cs \<Rightarrow>
          if c = CHR ''+'' then map_option int (integerValue 10 cs)
          else if c = CHR ''-'' then map_option (\<lambda>n. - int n) (integerValue 10 cs)
          else map_option int (integerValue 10 s))"

text \<open>\<open>ExponentPart\<close>, when there is one: absent counts as exponent \<open>0\<close>.\<close>

definition exponentValue :: "string \<Rightarrow> int option" where
  "exponentValue s =
     (case s of
        [] \<Rightarrow> Some 0
      | c # cs \<Rightarrow>
          if c = CHR ''e'' \<or> c = CHR ''E'' then signedIntegerValue cs else None)"

definition scale10 :: "nat \<Rightarrow> int \<Rightarrow> rat" where
  "scale10 m e = (if 0 \<le> e then of_nat m * 10 ^ nat e else of_nat m / 10 ^ nat (- e))"

text \<open>\<open>StrUnsignedDecimalLiteral\<close>.\<close>

definition unsignedDecimalValue :: "string \<Rightarrow> jsnum" where
  "unsignedDecimalValue s =
     (if s = ''Infinity'' then PInf
      else
        let ip = takeWhile isDecimalDigit s;
            r1 = dropWhile isDecimalDigit s;
            dot = (r1 \<noteq> [] \<and> hd r1 = CHR ''.'');
            fp = (if dot then takeWhile isDecimalDigit (tl r1) else []);
            r2 = (if dot then dropWhile isDecimalDigit (tl r1) else r1)
        in if ip = [] \<and> fp = [] then NaN
           else case (digitsValue 10 0 (ip @ fp), exponentValue r2) of
                  (Some m, Some e) \<Rightarrow> numberValue (scale10 m (e - int (length fp)))
                | _ \<Rightarrow> NaN)"

definition strDecimalValue :: "string \<Rightarrow> jsnum" where
  "strDecimalValue s =
     (case s of
        [] \<Rightarrow> NaN
      | c # cs \<Rightarrow>
          if c = CHR ''+'' then unsignedDecimalValue cs
          else if c = CHR ''-'' then js_neg (unsignedDecimalValue cs)
          else unsignedDecimalValue s)"

definition Number :: "string \<Rightarrow> jsnum" where
  "Number s =
     (let t = trimString s
      in if t = [] then Fin 0
         else case nonDecimalValue t of
                Some n \<Rightarrow> numberValue (of_nat n)
              | None \<Rightarrow> strDecimalValue t)"











section \<open>Errors\<close>

text \<open>Each constructor is one \<open>throw new ValidationError(...)\<close> of the program, with the
  values its message interpolates.\<close>

datatype error =
    InvalidFilterExpression string
  | InvalidDate string
  | NotAList string string
  | ComparisonNotAllowed jsvalue
  | InvalidEditExpression string
  | ReadFailed string

section \<open>\<open>compare\<close>\<close>

text \<open>
  \<open>localeCompare\<close> is the host's collation: it depends on the locale and on the Unicode
  data of the runtime, so it is a parameter \<open>lc\<close> of the model. It returns a negative,
  zero or positive integer.
\<close>

type_synonym collation = "string \<Rightarrow> string \<Rightarrow> int"

definition compare :: "collation \<Rightarrow> jsvalue \<Rightarrow> string \<Rightarrow> error + jsnum" where
  "compare lc actualValue v =
     (let actualValue' =
            (case actualValue of
               Bool b \<Rightarrow> Num (Fin (if b then 1 else 0))
             | Undefined \<Rightarrow> Str []
             | Null \<Rightarrow> Str []
             | a \<Rightarrow> a)
      in case actualValue' of
           Num n \<Rightarrow> Inr (js_sub n (Number v))
         | Str s \<Rightarrow> Inr (Fin (of_int (lc s v)))
         | a \<Rightarrow> Inl (ComparisonNotAllowed a))"

section \<open>Conditions and their grammar\<close>

datatype operator = EQ | NE | LE | LT | GE | GT | XOR

text \<open>The \<open>value\<close> of a condition: one literal, or the list of literals of a list file.\<close>

datatype operand = Single string | Multi "string list"

record condition =
  key :: string
  operator :: operator
  val :: operand

text \<open>\<open>\w\<close> without the unicode flag: letters, digits and the underscore of ASCII.\<close>

definition isWordChar :: "char \<Rightarrow> bool" where
  "isWordChar c =
     (let n = (of_char c :: nat)
      in (48 \<le> n \<and> n \<le> 57) \<or> (65 \<le> n \<and> n \<le> 90) \<or> n = 95 \<or> (97 \<le> n \<and> n \<le> 122))"

text \<open>\<open>.\<close> matches every character but a line terminator.\<close>

definition isLineTerminator :: "char \<Rightarrow> bool" where
  "isLineTerminator c = (c = CHR 0x0A \<or> c = CHR 0x0D)"

fun startsWith :: "string \<Rightarrow> string \<Rightarrow> bool" where
  "startsWith [] s = True"
| "startsWith (p # ps) [] = False"
| "startsWith (p # ps) (c # cs) = (p = c \<and> startsWith ps cs)"

text \<open>The alternatives of the group \<open>operator\<close>, in the order the pattern lists them.\<close>

definition operatorTokens :: "(string \<times> operator) list" where
  "operatorTokens =
     [(''=='', EQ), (''!='', NE), (''<='', LE), (''<'', LT), (''>='', GE), (''>'', GT),
      (''^'', XOR)]"

text \<open>
  An alternation takes the first alternative that lets the rest of the pattern match;
  what follows the group is \<open>.*\<close>, which matches at every position, so it is the first
  alternative that is a prefix of the input. The result is the operator and the input
  after it.
\<close>

fun matchAlternatives :: "(string \<times> 'a) list \<Rightarrow> string \<Rightarrow> ('a \<times> string) option" where
  "matchAlternatives [] s = None"
| "matchAlternatives ((t, x) # alts) s =
     (if startsWith t s then Some (x, drop (length t) s) else matchAlternatives alts s)"

text \<open>
  \<open>expression.match(/^(?<key>\w+)(?<operator>==|!=|<=|<|>=|>|\^)(?<value>.*)/)\<close>.
  \<open>\w+\<close> is greedy; giving back a character of the key leaves a word character in front of
  the operator group, which no operator starts with, so backtracking never finds a match
  that the longest key does not. \<open>.*\<close> runs to the first line terminator and the
  pattern has no end anchor.
\<close>

definition parseCondition :: "string \<Rightarrow> error + condition" where
  "parseCondition expression =
     (let k = takeWhile isWordChar expression;
          rest = dropWhile isWordChar expression
      in if k = [] then Inl (InvalidFilterExpression expression)
         else case matchAlternatives operatorTokens rest of
                None \<Rightarrow> Inl (InvalidFilterExpression expression)
              | Some (op, r) \<Rightarrow>
                  Inr \<lparr>key = k, operator = op,
                       val = Single (takeWhile (\<lambda>c. \<not> isLineTerminator c) r)\<rparr>)"

text \<open>\<open>filterSpecification.split("&&")\<close>: the separators are found from left to right.\<close>

fun splitAnd :: "string \<Rightarrow> string list" where
  "splitAnd [] = [[]]"
| "splitAnd [c] = [[c]]"
| "splitAnd (c # d # cs) =
     (if c = CHR ''&'' \<and> d = CHR ''&'' then [] # splitAnd cs
      else case splitAnd (d # cs) of
             p # ps \<Rightarrow> (c # p) # ps
           | [] \<Rightarrow> [[c]])"

text \<open>\<open>map\<close> with a callback that may throw: the first error ends it.\<close>

fun mapResult :: "('a \<Rightarrow> error + 'b) \<Rightarrow> 'a list \<Rightarrow> error + 'b list" where
  "mapResult f [] = Inr []"
| "mapResult f (x # xs) =
     (case f x of
        Inl e \<Rightarrow> Inl e
      | Inr y \<Rightarrow> (case mapResult f xs of Inl e \<Rightarrow> Inl e | Inr ys \<Rightarrow> Inr (y # ys)))"

definition parseConditions :: "string option \<Rightarrow> error + condition list" where
  "parseConditions filterSpecification =
     (case filterSpecification of
        None \<Rightarrow> Inr []
      | Some s \<Rightarrow> mapResult parseCondition (splitAnd s))"

section \<open>List files\<close>

text \<open>
  What \<open>parseYaml\<close> gives under one key of the file: a list, whose members the conditions
  use as literals (\<open>value: string | string[]\<close>), or a value \<open>Array.isArray\<close> rejects.
  The members are strings, as the type of a condition declares; a list with a member that
  the parser reads as a number, a boolean or \<open>null\<close> is outside the model.
\<close>

datatype yaml_entry = YamlList "string list" | YamlOther jsvalue

text \<open>
  \<open>loadConditionsFromYaml\<close> after the file is read and parsed: \<open>entries\<close> is
  \<open>Object.entries(excludeMap)\<close> in the order the loop visits it, \<open>conditions\<close> the list
  the loop pushes to.
\<close>

fun loadEntries ::
  "string \<Rightarrow> operator \<Rightarrow> (string \<times> yaml_entry) list \<Rightarrow> condition list \<Rightarrow> error + condition list"
where
  "loadEntries path op [] conditions = Inr conditions"
| "loadEntries path op ((k, YamlList values) # entries) conditions =
     loadEntries path op entries (conditions @ [\<lparr>key = k, operator = op, val = Multi values\<rparr>])"
| "loadEntries path op ((k, YamlOther v) # entries) conditions = Inl (NotAList k path)"

text \<open>
  The host: its collation, the date parser \<open>timestamp\<close> of the ListenBrainz library
  (\<open>NaN\<close> for a date it cannot read), and \<open>Deno.readTextFile\<close> followed by \<open>parseYaml\<close>,
  which gives the entries of the file or fails.
\<close>

record host =
  localeCompare :: collation
  timestamp :: "string \<Rightarrow> jsnum"
  readYaml :: "string \<Rightarrow> error + (string \<times> yaml_entry) list"

definition loadConditionsFromYaml ::
  "host \<Rightarrow> string \<Rightarrow> operator \<Rightarrow> condition list \<Rightarrow> error + condition list"
where
  "loadConditionsFromYaml h path op conditions =
     (case readYaml h path of
        Inl e \<Rightarrow> Inl e
      | Inr entries \<Rightarrow> loadEntries path op entries conditions)"

section \<open>Records\<close>

text \<open>
  Modelled from the spec: the types \<open>Listen\<close> and \<open>Track\<close> are declared by the
  ListenBrainz library, not by this repository. A record has an integer event timestamp, a
  primary namespace of fixed keys (artist name, track title, and an optional release name)
  and an optional secondary namespace \<open>additional_info\<close> with an open set of keys.
\<close>

record track =
  artist_name :: string
  track_name :: string
  release_name :: "string option"
  additional_info :: "(string \<rightharpoonup> jsvalue) option"

record listen =
  listened_at :: int
  track_metadata :: track

text \<open>
  A property read \<open>object[key]\<close> falls back to \<open>Object.prototype\<close> when the object has no
  own property of that name: these names give a function, every other name gives
  \<open>undefined\<close>. The program runs on Deno, whose \<open>Object.prototype\<close> has no accessor
  \<open>__proto__\<close>: that name is a key like any other, for a read and for a write.
\<close>

definition objectPrototypeKeys :: "string list" where
  "objectPrototypeKeys =
     [''constructor'', ''hasOwnProperty'', ''isPrototypeOf'', ''propertyIsEnumerable'',
      ''toLocaleString'', ''toString'', ''valueOf'', ''__defineGetter__'',
      ''__defineSetter__'', ''__lookupGetter__'', ''__lookupSetter__'']"

definition inheritedProperty :: "string \<Rightarrow> jsvalue" where
  "inheritedProperty k = (if k \<in> set objectPrototypeKeys then Obj else Undefined)"

text \<open>\<open>track[key]\<close>.\<close>

definition trackProperty :: "track \<Rightarrow> string \<Rightarrow> jsvalue" where
  "trackProperty t k =
     (if k = ''artist_name'' then Str (artist_name t)
      else if k = ''track_name'' then Str (track_name t)
      else if k = ''release_name'' then
        (case release_name t of None \<Rightarrow> inheritedProperty k | Some s \<Rightarrow> Str s)
      else if k = ''additional_info'' then
        (case additional_info t of None \<Rightarrow> inheritedProperty k | Some _ \<Rightarrow> Obj)
      else inheritedProperty k)"

text \<open>\<open>info[key]\<close>.\<close>

definition infoProperty :: "(string \<rightharpoonup> jsvalue) \<Rightarrow> string \<Rightarrow> jsvalue" where
  "infoProperty info k = (case info k of None \<Rightarrow> inheritedProperty k | Some v \<Rightarrow> v)"

text \<open>\<open>a ?? b\<close>: the right operand when the left one is \<open>null\<close> or \<open>undefined\<close>.\<close>

definition nullish :: "jsvalue \<Rightarrow> bool" where
  "nullish v = (v = Undefined \<or> v = Null)"

text \<open>
  The first two statements of the callback of \<open>every\<close>, with
  \<open>info = track.additional_info ?? {}\<close>.
\<close>

definition actualValueOf :: "track \<Rightarrow> string \<Rightarrow> jsvalue" where
  "actualValueOf t k =
     (let info = (case additional_info t of None \<Rightarrow> Map.empty | Some m \<Rightarrow> m);
          a = trackProperty t k
      in if nullish a then infoProperty info k else a)"

section \<open>Evaluating a condition\<close>

text \<open>What \<open>console.warn\<close> prints, with the values the message interpolates.\<close>

datatype warning = HasMultipleValues string | NoMultipleValues string operator

text \<open>\<open>value.some((value) => compare(actualValue, value) === 0)\<close>.\<close>

fun someEqual :: "collation \<Rightarrow> jsvalue \<Rightarrow> string list \<Rightarrow> error + bool" where
  "someEqual lc actualValue [] = Inr False"
| "someEqual lc actualValue (v # vs) =
     (case compare lc actualValue v of
        Inl e \<Rightarrow> Inl e
      | Inr r \<Rightarrow> if js_eq r (Fin 0) then Inr True else someEqual lc actualValue vs)"

text \<open>\<open>value.every((value) => compare(actualValue, value) !== 0)\<close>.\<close>

fun everyUnequal :: "collation \<Rightarrow> jsvalue \<Rightarrow> string list \<Rightarrow> error + bool" where
  "everyUnequal lc actualValue [] = Inr True"
| "everyUnequal lc actualValue (v # vs) =
     (case compare lc actualValue v of
        Inl e \<Rightarrow> Inl e
      | Inr r \<Rightarrow> if \<not> js_eq r (Fin 0) then everyUnequal lc actualValue vs else Inr False)"

text \<open>\<open>compare(actualValue, value)\<close> followed by a test of the number it returns.\<close>

definition compareTest ::
  "collation \<Rightarrow> jsvalue \<Rightarrow> string \<Rightarrow> (jsnum \<Rightarrow> bool) \<Rightarrow> error + jsvalue"
where
  "compareTest lc actualValue v p =
     (case compare lc actualValue v of Inl e \<Rightarrow> Inl e | Inr r \<Rightarrow> Inr (Bool (p r)))"

text \<open>
  The body of the callback of \<open>conditions.every\<close> from the test of \<open>actualValue\<close> on: the
  warnings it prints, and the value it returns or the error it throws. The exclusive or
  returns one of its operands, not always a boolean.
\<close>

definition evalCondition ::
  "collation \<Rightarrow> condition \<Rightarrow> jsvalue \<Rightarrow> warning list \<times> (error + jsvalue)"
where
  "evalCondition lc c actualValue =
     (if isArray actualValue then ([HasMultipleValues (key c)], Inr (Bool True))
      else case val c of
        Multi values \<Rightarrow>
          if operator c = EQ then
            ([], map_sum id Bool (someEqual lc actualValue values))
          else if operator c = NE then
            ([], map_sum id Bool (everyUnequal lc actualValue values))
          else ([NoMultipleValues (key c) (operator c)], Inr (Bool True))
      | Single v \<Rightarrow>
          (case operator c of
             EQ \<Rightarrow> ([], compareTest lc actualValue v (\<lambda>r. js_eq r (Fin 0)))
           | NE \<Rightarrow> ([], compareTest lc actualValue v (\<lambda>r. \<not> js_eq r (Fin 0)))
           | XOR \<Rightarrow>
               ([], Inr (js_or (js_and actualValue (js_not (Str v)))
                               (js_and (js_not actualValue) (Str v))))
           | LE \<Rightarrow> ([], compareTest lc actualValue v (\<lambda>r. js_le r (Fin 0)))
           | LT \<Rightarrow> ([], compareTest lc actualValue v (\<lambda>r. js_lt r (Fin 0)))
           | GE \<Rightarrow> ([], compareTest lc actualValue v (\<lambda>r. js_ge r (Fin 0)))
           | GT \<Rightarrow> ([], compareTest lc actualValue v (\<lambda>r. js_gt r (Fin 0)))))"

text \<open>The result of the callback as \<open>every\<close> reads it: through \<open>ToBoolean\<close>.\<close>

definition evaluate ::
  "collation \<Rightarrow> condition \<Rightarrow> jsvalue \<Rightarrow> warning list \<times> (error + bool)"
where
  "evaluate lc c actualValue =
     (case evalCondition lc c actualValue of
        (ws, Inl e) \<Rightarrow> (ws, Inl e)
      | (ws, Inr r) \<Rightarrow> (ws, Inr (truthy r)))"

text \<open>
  \<open>conditions.every(...)\<close>: it stops at the first condition that is not satisfied, and at
  the first error.
\<close>

fun everyCondition ::
  "collation \<Rightarrow> track \<Rightarrow> condition list \<Rightarrow> warning list \<times> (error + bool)"
where
  "everyCondition lc t [] = ([], Inr True)"
| "everyCondition lc t (c # cs) =
     (case evaluate lc c (actualValueOf t (key c)) of
        (ws, Inl e) \<Rightarrow> (ws, Inl e)
      | (ws, Inr b) \<Rightarrow>
          if b then (case everyCondition lc t cs of (ws', r) \<Rightarrow> (ws @ ws', r))
          else (ws, Inr False))"

section \<open>The filter\<close>

text \<open>The function \<open>getListenFilter\<close> returns, with the variables it closes over.\<close>

definition listenFilter ::
  "collation \<Rightarrow> jsnum \<Rightarrow> jsnum \<Rightarrow> condition list \<Rightarrow> listen
     \<Rightarrow> warning list \<times> (error + bool)"
where
  "listenFilter lc minTs maxTs conditions l =
     (if js_le (Fin (of_int (listened_at l))) minTs \<or> js_ge (Fin (of_int (listened_at l))) maxTs
      then ([], Inr False)
      else everyCondition lc (track_metadata l) conditions)"

record options =
  after :: "string option"
  before :: "string option"
  excludeList :: "string option"
  includeList :: "string option"

text \<open>An optional string in a condition: absent and the empty string count as false.\<close>

definition given :: "string option \<Rightarrow> bool" where
  "given s = (case s of None \<Rightarrow> False | Some t \<Rightarrow> t \<noteq> [])"

text \<open>A bound: the default when the option is not given, an error when the date is
  not one.\<close>

definition timeBound :: "host \<Rightarrow> string option \<Rightarrow> jsnum \<Rightarrow> error + jsnum" where
  "timeBound h date fallback =
     (let ts = (if given date then timestamp h (the date) else fallback)
      in if isNaN ts then Inl (InvalidDate (case date of None \<Rightarrow> ''undefined'' | Some d \<Rightarrow> d))
         else Inr ts)"

definition loadOptional ::
  "host \<Rightarrow> string option \<Rightarrow> operator \<Rightarrow> condition list \<Rightarrow> error + condition list"
where
  "loadOptional h path op conditions =
     (if given path then loadConditionsFromYaml h (the path) op conditions
      else Inr conditions)"

text \<open>Sequencing of steps that may throw.\<close>

definition andThen :: "error + 'a \<Rightarrow> ('a \<Rightarrow> error + 'b) \<Rightarrow> error + 'b" where
  "andThen r f = (case r of Inl e \<Rightarrow> Inl e | Inr x \<Rightarrow> f x)"

definition getListenFilter ::
  "host \<Rightarrow> string option \<Rightarrow> options
     \<Rightarrow> error + (listen \<Rightarrow> warning list \<times> (error + bool))"
where
  "getListenFilter h filterSpecification opts =
     andThen (parseConditions filterSpecification) (\<lambda>conditions.
     andThen (timeBound h (after opts) (Fin 0)) (\<lambda>minTs.
     andThen (timeBound h (before opts) PInf) (\<lambda>maxTs.
     andThen (loadOptional h (excludeList opts) NE conditions) (\<lambda>conditions.
     andThen (loadOptional h (includeList opts) EQ conditions) (\<lambda>conditions.
     Inr (listenFilter (localeCompare h) minTs maxTs conditions))))))"

section \<open>The modifier\<close>

record edit =
  edit_key :: string
  edit_value :: string

text \<open>\<open>expression.match(/^(?<key>\w+)(?<operator>=)(?<value>.*)/)\<close>.\<close>

definition parseEdit :: "string \<Rightarrow> error + edit" where
  "parseEdit expression =
     (let k = takeWhile isWordChar expression;
          rest = dropWhile isWordChar expression
      in if k = [] then Inl (InvalidEditExpression expression)
         else case matchAlternatives [(''='', ())] rest of
                None \<Rightarrow> Inl (InvalidEditExpression expression)
              | Some (_, r) \<Rightarrow>
                  Inr \<lparr>edit_key = k,
                       edit_value = takeWhile (\<lambda>c. \<not> isLineTerminator c) r\<rparr>)"

text \<open>One turn of the loop over the edits.\<close>

definition applyEdit :: "track \<Rightarrow> edit \<Rightarrow> track" where
  "applyEdit t e =
     (if edit_key e = ''track_name'' then t\<lparr>track_name := edit_value e\<rparr>
      else if edit_key e = ''artist_name'' then t\<lparr>artist_name := edit_value e\<rparr>
      else if edit_key e = ''release_name'' then t\<lparr>release_name := Some (edit_value e)\<rparr>
      else
        let info = (case additional_info t of None \<Rightarrow> Map.empty | Some m \<Rightarrow> m)
        in t\<lparr>additional_info := Some (info(edit_key e \<mapsto> Str (edit_value e)))\<rparr>)"

text \<open>The function \<open>getListenModifier\<close> returns; it changes the record in place, the model
  returns the changed record.\<close>

definition listenModifier :: "edit list option \<Rightarrow> listen \<Rightarrow> listen" where
  "listenModifier edits l =
     (case edits of
        None \<Rightarrow> l
      | Some es \<Rightarrow> l\<lparr>track_metadata := foldl applyEdit (track_metadata l) es\<rparr>)"

definition getListenModifier :: "string list option \<Rightarrow> error + (listen \<Rightarrow> listen)" where
  "getListenModifier expressions =
     (case expressions of
        None \<Rightarrow> Inr (listenModifier None)
      | Some xs \<Rightarrow>
          (case mapResult parseEdit xs of
             Inl e \<Rightarrow> Inl e
           | Inr es \<Rightarrow> Inr (listenModifier (Some es))))"

text \<open>A collation for the examples: the order of the code units, as \<open>-1\<close>, \<open>0\<close> or \<open>1\<close>.\<close>

fun codeUnitOrder :: collation where
  "codeUnitOrder [] [] = 0"
| "codeUnitOrder [] (d # t) = - 1"
| "codeUnitOrder (c # s) [] = 1"
| "codeUnitOrder (c # s) (d # t) =
     (if (of_char c :: nat) < of_char d then - 1
      else if (of_char d :: nat) < of_char c then 1
      else codeUnitOrder s t)"

text \<open>The text of each operator in the pattern.\<close>

fun tokenOf :: "operator \<Rightarrow> string" where
  "tokenOf EQ = ''==''"
| "tokenOf NE = ''!=''"
| "tokenOf LE = ''<=''"
| "tokenOf LT = ''<''"
| "tokenOf GE = ''>=''"
| "tokenOf GT = ''>''"
| "tokenOf XOR = ''^''"

text \<open>
  A host for the examples: it collates by code units, reads two dates, 100 and 200 seconds
  after the epoch, and has one list file, whose only key holds a string.
\<close>

definition exampleHost :: host where
  "exampleHost =
     \<lparr>localeCompare = codeUnitOrder,
      timestamp = (\<lambda>d. if d = ''1970-01-01T00:01:40Z'' then Fin 100
                        else if d = ''1970-01-01T00:03:20Z'' then Fin 200
                        else NaN),
      readYaml = (\<lambda>p. if p = ''exclude.yml''
                       then Inr [(''artist_name'', YamlOther (Str ''Foo''))]
                       else Inl (ReadFailed p))\<rparr>"

definition exampleListen :: "int \<Rightarrow> listen" where
  "exampleListen ts =
     \<lparr>listened_at = ts,
      track_metadata =
        \<lparr>artist_name = ''Old Artist'', track_name = ''Title'', release_name = None,
         additional_info = Some [''duration_ms'' \<mapsto> Num (Fin 50000)]\<rparr>\<rparr>"

text \<open>No option given.\<close>

definition noOptions :: options where
  "noOptions = \<lparr>after = None, before = None, excludeList = None, includeList = None\<rparr>"

section \<open>Properties of the numbers\<close>

lemma bitLength_floorlog: "bitLength n = floorlog 2 n"
proof (induction n rule: bitLength.induct)
  case (1 n)
  show ?case
  proof (cases "n = 0")
    case True
    then show ?thesis by (simp add: bitLength.simps floorlog_def)
  next
    case False
    with 1 have "bitLength (n div 2) = floorlog 2 (n div 2)" by simp
    with False show ?thesis
      by (subst bitLength.simps, subst compute_floorlog) simp
  qed
qed

lemma bitLength_bounds:
  assumes "0 < n"
  shows "2 ^ (bitLength n - 1) \<le> n" and "n < 2 ^ bitLength n"
  using floorlog_bounds [of n 2] assms by (simp_all add: bitLength_floorlog)

lemma bitLength_shift: "0 < k \<Longrightarrow> bitLength (k * 2 ^ c) = bitLength k + c"
  by (simp add: bitLength_floorlog)

lemma bitLength_le: "n < 2 ^ w \<Longrightarrow> bitLength n \<le> w"
  by (simp add: bitLength_floorlog floorlog_leI)

lemma bitLength_ge: "2 ^ w \<le> n \<Longrightarrow> Suc w \<le> bitLength n"
  by (simp add: bitLength_floorlog floorlog_ge_SucI)

lemma roundHalfEven_ge: "nat \<lfloor>y\<rfloor> \<le> roundHalfEven y"
  by (simp add: roundHalfEven_def Let_def)

lemma roundHalfEven_nat: "roundHalfEven (of_nat j) = j"
  by (simp add: roundHalfEven_def Let_def)



lemma doubleOfMagnitude_zero: "doubleOfMagnitude 0 = Fin 0"
  by (simp add: doubleOfMagnitude_def roundHalfEven_def)


lemma numberValue_zero: "numberValue 0 = Fin 0"
  by (simp add: numberValue_def doubleOfMagnitude_zero)






text \<open>The natural numbers below \<open>2^53\<close> are doubles.\<close>

lemma doubleOfMagnitude_small:
  assumes "k < 2 ^ 53"
  shows "doubleOfMagnitude (of_nat k) = Fin (of_nat k)"
proof (cases "k = 0")
  case True
  then show ?thesis by (simp only: of_nat_0 doubleOfMagnitude_zero)
next
  case False
  define y :: rat where "y = of_nat k * 2 ^ 1074"
  define n where "n = nat \<lfloor>y\<rfloor>"
  define s where "s = (if n < 2 ^ 53 then 0 else bitLength n - 53)"
  define m where "m = roundHalfEven (y / 2 ^ s)"
  define bl where "bl = bitLength k"
  have d: "doubleOfMagnitude (of_nat k) =
      (if 2 ^ 2098 \<le> m * 2 ^ s then PInf else Fin (of_nat (m * 2 ^ s) / 2 ^ 1074))"
    unfolding doubleOfMagnitude_def Let_def m_def s_def n_def y_def by (rule refl)
  from False have k0: "0 < k" by simp
  have y: "y = of_nat (k * 2 ^ 1074)"
    unfolding y_def by (simp only: of_nat_mult of_nat_power of_nat_numeral)
  have n: "n = k * 2 ^ 1074"
    unfolding n_def y by (simp only: floor_of_nat nat_int)
  have "(2::nat) ^ 53 \<le> 2 ^ 1074"
    by (rule power_increasing) simp_all
  also have "\<dots> = 1 * 2 ^ 1074" by (simp only: mult_1)
  also from k0 have "\<dots> \<le> k * 2 ^ 1074"
    by (intro mult_le_mono1) simp
  finally have big: "\<not> n < 2 ^ 53"
    unfolding n by (simp only: not_less)
  from assms have bl53: "bl \<le> 53"
    unfolding bl_def by (rule bitLength_le)
  have "bitLength n = bl + 1074"
    unfolding n bl_def using k0 by (rule bitLength_shift)
  with big have s: "s = bl + 1021"
    unfolding s_def by simp
  from bl53 have e: "1074 = (53 - bl) + s"
    unfolding s by simp
  have p: "(2::rat) ^ 1074 = 2 ^ (53 - bl) * 2 ^ s"
    by (subst e) (rule power_add)
  have "y / 2 ^ s = of_nat k * (2 ^ (53 - bl) * 2 ^ s) / 2 ^ s"
    unfolding y_def by (simp only: p)
  also have "\<dots> = of_nat k * 2 ^ (53 - bl)"
    by simp
  also have "\<dots> = of_nat (k * 2 ^ (53 - bl))"
    by (simp only: of_nat_mult of_nat_power of_nat_numeral)
  finally have m: "m = k * 2 ^ (53 - bl)"
    unfolding m_def by (simp only: roundHalfEven_nat)
  have "(2::nat) ^ 1074 = 2 ^ (53 - bl) * 2 ^ s"
    by (subst e) (rule power_add)
  then have ms: "m * 2 ^ s = k * 2 ^ 1074"
    unfolding m by (simp only: mult.assoc)
  from assms have "k * 2 ^ 1074 < 2 ^ 53 * 2 ^ 1074"
    by (intro mult_strict_right_mono) simp_all
  also have "\<dots> = (2::nat) ^ (53 + 1074)"
    by (rule power_add [symmetric])
  also have "\<dots> \<le> 2 ^ 2098"
    by (rule power_increasing) simp_all
  finally have small: "\<not> 2 ^ 2098 \<le> m * 2 ^ s"
    unfolding ms by (simp only: not_le)
  have "(of_nat (k * 2 ^ 1074) :: rat) / 2 ^ 1074 = of_nat k"
    by (simp only: of_nat_mult of_nat_power of_nat_numeral) simp
  with d small show ?thesis
    unfolding ms by (simp only: if_False)
qed

lemma numberValue_small: "k < 2 ^ 53 \<Longrightarrow> numberValue (of_nat k) = Fin (of_nat k)"
  by (simp only: numberValue_def doubleOfMagnitude_small) simp


text \<open>From \<open>2^1024\<close> on, a value becomes an infinity.\<close>

lemma doubleOfMagnitude_overflow:
  assumes "2 ^ 1024 \<le> x"
  shows "doubleOfMagnitude x = PInf"
proof -
  define y where "y = x * 2 ^ 1074"
  define n where "n = nat \<lfloor>y\<rfloor>"
  define s where "s = (if n < 2 ^ 53 then 0 else bitLength n - 53)"
  define m where "m = roundHalfEven (y / 2 ^ s)"
  have d: "doubleOfMagnitude x =
      (if 2 ^ 2098 \<le> m * 2 ^ s then PInf else Fin (of_nat (m * 2 ^ s) / 2 ^ 1074))"
    unfolding doubleOfMagnitude_def Let_def m_def s_def n_def y_def by (rule refl)
  have "(2::rat) ^ 2098 = 2 ^ 1024 * 2 ^ 1074"
    by (simp only: power_add [symmetric]) simp
  also from assms have "\<dots> \<le> y"
    unfolding y_def by (intro mult_right_mono) simp_all
  finally have y: "of_nat (2 ^ 2098) \<le> y"
    by (simp only: of_nat_power of_nat_numeral)
  then have "int (2 ^ 2098) \<le> \<lfloor>y\<rfloor>"
    by (simp only: le_floor_iff of_int_of_nat_eq)
  then have n: "2 ^ 2098 \<le> n"
    unfolding n_def by linarith
  have "(2::nat) ^ 53 \<le> 2 ^ 2098"
    by (rule power_increasing) simp_all
  with n have big: "\<not> n < 2 ^ 53" by linarith
  then have s: "s = bitLength n - 53"
    unfolding s_def by (simp only: if_False)
  from n have bl: "Suc 2098 \<le> bitLength n"
    by (rule bitLength_ge)
  from n have n0: "0 < n" by (simp add: less_le_trans [rotated])
  have ny: "of_nat n \<le> y"
    unfolding n_def using y by (simp add: order_trans [OF of_nat_0_le_iff])
  have e: "bitLength n - 1 = 52 + s"
    unfolding s using bl by simp
  have "(2::nat) ^ 52 * 2 ^ s = 2 ^ (bitLength n - 1)"
    unfolding e by (rule power_add [symmetric])
  also from n0 have "\<dots> \<le> n" by (rule bitLength_bounds)
  finally have "(of_nat (2 ^ 52 * 2 ^ s) :: rat) \<le> of_nat n"
    by (simp only: of_nat_le_iff)
  then have "(2::rat) ^ 52 * 2 ^ s \<le> of_nat n"
    by (simp only: of_nat_mult of_nat_power of_nat_numeral)
  with ny have "(2::rat) ^ 52 * 2 ^ s \<le> y"
    by (rule order_trans [rotated])
  then have "of_nat (2 ^ 52) \<le> y / 2 ^ s"
    by (simp add: field_simps)
  then have "int (2 ^ 52) \<le> \<lfloor>y / 2 ^ s\<rfloor>"
    by (simp only: le_floor_iff of_int_of_nat_eq)
  then have "2 ^ 52 \<le> nat \<lfloor>y / 2 ^ s\<rfloor>"
    by linarith
  also have "\<dots> \<le> m"
    unfolding m_def by (rule roundHalfEven_ge)
  finally have b: "2 ^ 52 * 2 ^ s \<le> m * 2 ^ s"
    by (rule mult_le_mono1)
  have "(2::nat) ^ 2098 \<le> 2 ^ (52 + s)"
    using bl e by (intro power_increasing) simp_all
  then have a: "(2::nat) ^ 2098 \<le> 2 ^ 52 * 2 ^ s"
    by (simp only: power_add)
  from a b have "2 ^ 2098 \<le> m * 2 ^ s"
    by (rule order_trans)
  with d show ?thesis by (simp only: if_True)
qed

lemma numberValue_overflow: "2 ^ 1024 \<le> x \<Longrightarrow> numberValue x = PInf"
proof -
  assume x: "2 ^ 1024 \<le> x"
  have "(0::rat) \<le> 2 ^ 1024" by simp
  with x have "\<not> x < 0" by linarith
  with x show ?thesis
    by (simp only: numberValue_def if_False doubleOfMagnitude_overflow)
qed

lemmas Number_defs = Number_def trimString_def isStrWhiteSpaceChar_def nonDecimalValue_def
  integerValue_def strDecimalValue_def unsignedDecimalValue_def isDecimalDigit_def
  digitValue_def exponentValue_def signedIntegerValue_def scale10_def

lemma numberValue_one: "numberValue 1 = Fin 1"
  using numberValue_small [of 1] by simp

lemma Number_one: "Number ''1'' = Fin 1"
  by (simp add: Number_defs numberValue_one)

lemma Number_zero: "Number ''0'' = Fin 0"
  by (simp add: Number_defs numberValue_zero)



text \<open>A literal beyond the range of a double reads as an infinity.\<close>

lemma Number_overflow: "Number ''1e309'' = PInf"
proof -
  have "Number ''1e309'' = numberValue (10 ^ 309)"
    by (simp add: Number_defs)
  moreover have "(2::rat) ^ 1024 \<le> 10 ^ 309"
    by simp
  ultimately show ?thesis
    by (simp only: numberValue_overflow)
qed

text \<open>A literal between two doubles reads as the nearest one, a tie as the even one.\<close>

lemma bitLength_tie: "bitLength 9007199254740993 = 54"
  by (simp add: bitLength.simps)

lemma Number_tie: "Number ''9007199254740993'' = Fin 9007199254740992"
proof -
  have n: "Number ''9007199254740993'' = numberValue 9007199254740993"
    by (simp add: Number_defs)
  have "bitLength (9007199254740993 * 2 ^ 1074) = bitLength 9007199254740993 + 1074"
    by (rule bitLength_shift) simp
  then have "bitLength (9007199254740993 * 2 ^ 1074) = 1128"
    by (simp only: bitLength_tie)
  moreover have "\<lfloor>(9007199254740993::rat) / 2\<rfloor> = 4503599627370496"
    by (rule floor_unique) simp_all
  ultimately have "numberValue 9007199254740993 = Fin 9007199254740992"
    by (simp add: numberValue_def doubleOfMagnitude_def roundHalfEven_def Let_def)
  with n show ?thesis by simp
qed

section \<open>The literals that \<open>Number\<close> reads\<close>




























section \<open>Properties of \<open>compare\<close>\<close>



lemma compare_Str: "compare lc (Str s) lit = Inr (Fin (of_int (lc s lit)))"
  by (simp add: compare_def)

text \<open>
  C1. \<open>compare\<close> turns a boolean into 1 or 0 and an absent or null value into the empty
  string; on a number it returns the number minus \<open>Number\<close> of the literal, on a string
  the host's collation of the string against the literal, and on any other value (an
  array, an object) it throws \<open>ComparisonNotAllowed\<close>. So \<open>compare(true, "1")\<close> and
  \<open>compare(false, "0")\<close> are 0.
\<close>

theorem compare_contract:
  "compare lc (Bool True) lit = Inr (js_sub (Fin 1) (Number lit))
   \<and> compare lc (Bool False) lit = Inr (js_sub (Fin 0) (Number lit))
   \<and> compare lc Undefined lit = Inr (Fin (of_int (lc [] lit)))
   \<and> compare lc Null lit = Inr (Fin (of_int (lc [] lit)))
   \<and> compare lc (Num n) lit = Inr (js_sub n (Number lit))
   \<and> compare lc (Str s) lit = Inr (Fin (of_int (lc s lit)))
   \<and> compare lc (Arr xs) lit = Inl (ComparisonNotAllowed (Arr xs))
   \<and> compare lc Obj lit = Inl (ComparisonNotAllowed Obj)
   \<and> compare lc (Bool True) ''1'' = Inr (Fin 0)
   \<and> compare lc (Bool False) ''0'' = Inr (Fin 0)"
  by (simp add: compare_def Number_one Number_zero numberValue_zero)






section \<open>Properties of the evaluation of a condition\<close>

lemma compare_scalar: "isScalar a \<Longrightarrow> \<exists>r. compare lc a lit = Inr r"
  by (cases a) (simp_all add: compare_def)

lemma someEqual_scalar:
  "isScalar a \<Longrightarrow>
   someEqual lc a lits = Inr (\<exists>l\<in>set lits. \<exists>r. compare lc a l = Inr r \<and> js_eq r (Fin 0))"
proof (induction lits)
  case Nil
  then show ?case by simp
next
  case (Cons l lits)
  from Cons.prems obtain r where r: "compare lc a l = Inr r"
    using compare_scalar by blast
  show ?case using Cons r by simp
qed

lemma everyUnequal_scalar:
  "isScalar a \<Longrightarrow>
   everyUnequal lc a lits = Inr (\<forall>l\<in>set lits. \<exists>r. compare lc a l = Inr r \<and> \<not> js_eq r (Fin 0))"
proof (induction lits)
  case Nil
  then show ?case by simp
next
  case (Cons l lits)
  from Cons.prems obtain r where r: "compare lc a l = Inr r"
    using compare_scalar by blast
  show ?case using Cons r by simp
qed

lemma isScalar_not_array: "isScalar a \<Longrightarrow> \<not> isArray a"
  by (cases a) simp_all

lemma evaluate_Multi_EQ:
  "\<not> isArray a \<Longrightarrow>
   evaluate lc \<lparr>key = k, operator = EQ, val = Multi lits\<rparr> a =
     ([], case someEqual lc a lits of Inl e \<Rightarrow> Inl e | Inr b \<Rightarrow> Inr b)"
  by (simp add: evaluate_def evalCondition_def split: sum.splits)

lemma evaluate_Multi_NE:
  "\<not> isArray a \<Longrightarrow>
   evaluate lc \<lparr>key = k, operator = NE, val = Multi lits\<rparr> a =
     ([], case everyUnequal lc a lits of Inl e \<Rightarrow> Inl e | Inr b \<Rightarrow> Inr b)"
  by (simp add: evaluate_def evalCondition_def split: sum.splits)

text \<open>
  C2. For a scalar actual value and a list of literals as operand, the condition \<open>==\<close>
  holds iff \<open>compare\<close> returns 0 for at least one literal of the list, and the condition
  \<open>!=\<close> holds iff \<open>compare\<close> returns something else than 0 for every literal of the
  list. With a collation that tells \<open>a\<close>, \<open>b\<close> and \<open>c\<close> apart: \<open>b\<close> satisfies
  \<open>== {a, b}\<close> and not \<open>!= {a, b}\<close>, and \<open>c\<close> satisfies \<open>!= {a, b}\<close>.
\<close>

theorem evaluate_set_operand:
  assumes "isScalar actual"
  shows "evaluate lc \<lparr>key = k, operator = EQ, val = Multi lits\<rparr> actual =
           ([], Inr (\<exists>l\<in>set lits. \<exists>r. compare lc actual l = Inr r \<and> js_eq r (Fin 0)))
         \<and> evaluate lc \<lparr>key = k, operator = NE, val = Multi lits\<rparr> actual =
           ([], Inr (\<forall>l\<in>set lits. \<exists>r. compare lc actual l = Inr r \<and> \<not> js_eq r (Fin 0)))
         \<and> (lc ''b'' ''b'' = 0 \<longrightarrow>
              evaluate lc \<lparr>key = k, operator = EQ, val = Multi [''a'', ''b'']\<rparr> (Str ''b'')
                = ([], Inr True)
              \<and> evaluate lc \<lparr>key = k, operator = NE, val = Multi [''a'', ''b'']\<rparr> (Str ''b'')
                = ([], Inr False))
         \<and> (lc ''c'' ''a'' \<noteq> 0 \<and> lc ''c'' ''b'' \<noteq> 0 \<longrightarrow>
              evaluate lc \<lparr>key = k, operator = NE, val = Multi [''a'', ''b'']\<rparr> (Str ''c'')
                = ([], Inr True))"
proof -
  have na: "\<not> isArray actual"
    using assms by (rule isScalar_not_array)
  have eq: "evaluate lc \<lparr>key = k, operator = EQ, val = Multi lits\<rparr> actual =
      ([], Inr (\<exists>l\<in>set lits. \<exists>r. compare lc actual l = Inr r \<and> js_eq r (Fin 0)))"
    using assms by (simp add: evaluate_Multi_EQ [OF na] someEqual_scalar)
  have ne: "evaluate lc \<lparr>key = k, operator = NE, val = Multi lits\<rparr> actual =
      ([], Inr (\<forall>l\<in>set lits. \<exists>r. compare lc actual l = Inr r \<and> \<not> js_eq r (Fin 0)))"
    using assms by (simp add: evaluate_Multi_NE [OF na] everyUnequal_scalar)
  have ex1: "lc ''b'' ''b'' = 0 \<longrightarrow>
      evaluate lc \<lparr>key = k, operator = EQ, val = Multi [''a'', ''b'']\<rparr> (Str ''b'') = ([], Inr True)
      \<and> evaluate lc \<lparr>key = k, operator = NE, val = Multi [''a'', ''b'']\<rparr> (Str ''b'') = ([], Inr False)"
    by (simp add: evaluate_Multi_EQ evaluate_Multi_NE compare_Str js_eq_def)
  have ex2: "lc ''c'' ''a'' \<noteq> 0 \<and> lc ''c'' ''b'' \<noteq> 0 \<longrightarrow>
      evaluate lc \<lparr>key = k, operator = NE, val = Multi [''a'', ''b'']\<rparr> (Str ''c'') = ([], Inr True)"
    by (simp add: evaluate_Multi_NE compare_Str js_eq_def)
  from eq ne ex1 ex2 show ?thesis by blast
qed

theorem evaluate_set_operand_witness:
  "isScalar (Str ''b'')
   \<and> codeUnitOrder ''b'' ''b'' = 0 \<and> codeUnitOrder ''c'' ''a'' \<noteq> 0 \<and> codeUnitOrder ''c'' ''b'' \<noteq> 0
   \<and> evaluate codeUnitOrder \<lparr>key = ''artist_name'', operator = EQ, val = Multi [''a'', ''b'']\<rparr>
       (Str ''b'') = ([], Inr True)
   \<and> evaluate codeUnitOrder \<lparr>key = ''artist_name'', operator = NE, val = Multi [''a'', ''b'']\<rparr>
       (Str ''b'') = ([], Inr False)
   \<and> evaluate codeUnitOrder \<lparr>key = ''artist_name'', operator = NE, val = Multi [''a'', ''b'']\<rparr>
       (Str ''c'') = ([], Inr True)"
  using evaluate_set_operand [of "Str ''b''" codeUnitOrder "''artist_name''" "[''a'', ''b'']"]
  by (simp add: compare_Str js_eq_def)

lemma evaluate_array:
  "isArray a \<Longrightarrow> evaluate lc c a = ([HasMultipleValues (key c)], Inr True)"
  by (simp add: evaluate_def evalCondition_def)

lemma evaluate_Multi_other:
  "\<not> isArray a \<Longrightarrow> val c = Multi vs \<Longrightarrow> operator c \<noteq> EQ \<Longrightarrow> operator c \<noteq> NE \<Longrightarrow>
   evaluate lc c a = ([NoMultipleValues (key c) (operator c)], Inr True)"
  by (simp add: evaluate_def evalCondition_def)

text \<open>
  C3. A condition that cannot be evaluated, because the actual value is an array or
  because a list of literals comes with an operator other than \<open>==\<close> and \<open>!=\<close>, prints
  one warning and counts as satisfied: it throws nothing, and the verdict on the record is
  the verdict of the conditions after it.
\<close>

theorem not_evaluable_is_satisfied:
  assumes "isArray actual \<or> (\<exists>vs. val c = Multi vs \<and> operator c \<noteq> EQ \<and> operator c \<noteq> NE)"
  shows "\<exists>w. (w = HasMultipleValues (key c) \<or> w = NoMultipleValues (key c) (operator c))
           \<and> evaluate lc c actual = ([w], Inr True)
           \<and> (actualValueOf t (key c) = actual \<longrightarrow>
                everyCondition lc t (c # cs) =
                  (w # fst (everyCondition lc t cs), snd (everyCondition lc t cs)))"
proof (cases "isArray actual")
  case True
  then have "evaluate lc c actual = ([HasMultipleValues (key c)], Inr True)"
    by (rule evaluate_array)
  then show ?thesis by (auto split: prod.splits)
next
  case False
  with assms obtain vs where "val c = Multi vs" "operator c \<noteq> EQ" "operator c \<noteq> NE"
    by blast
  with False have "evaluate lc c actual = ([NoMultipleValues (key c) (operator c)], Inr True)"
    by (rule evaluate_Multi_other)
  then show ?thesis by (auto split: prod.splits)
qed

lemma truthy_xor:
  "truthy (js_or (js_and a (js_not b)) (js_and (js_not a) b)) = (truthy a \<noteq> truthy b)"
  by (auto simp add: js_or_def js_and_def js_not_def)

text \<open>
  C8. With one literal as operand and an actual value that is not an array, the condition
  \<open>^\<close> holds iff exactly one of the actual value and the literal is truthy; a string is
  truthy iff it is not empty. For the empty literal it fails on the number 0 and holds on
  the number 1.
\<close>

theorem xor_condition:
  assumes "\<not> isArray actual"
  shows "evaluate lc \<lparr>key = k, operator = XOR, val = Single lit\<rparr> actual
           = ([], Inr (truthy actual \<noteq> truthy (Str lit)))
         \<and> evaluate lc \<lparr>key = k, operator = XOR, val = Single []\<rparr> (Num (Fin 0)) = ([], Inr False)
         \<and> evaluate lc \<lparr>key = k, operator = XOR, val = Single []\<rparr> (Num (Fin 1)) = ([], Inr True)"
  using assms by (simp add: evaluate_def evalCondition_def truthy_xor)

theorem xor_condition_witness:
  "\<not> isArray (Num (Fin 1))
   \<and> evaluate codeUnitOrder \<lparr>key = ''skipped'', operator = XOR, val = Single []\<rparr> (Num (Fin 1))
       = ([], Inr True)
   \<and> evaluate codeUnitOrder \<lparr>key = ''skipped'', operator = XOR, val = Single []\<rparr> (Num (Fin 0))
       = ([], Inr False)"
  using xor_condition [of "Num (Fin 1)" codeUnitOrder "''skipped''" "[]"]
  by simp

theorem not_evaluable_is_satisfied_witness:
  "isArray (Arr [Str ''rock'', Str ''pop''])
   \<and> evaluate codeUnitOrder \<lparr>key = ''tags'', operator = EQ, val = Single ''rock''\<rparr>
       (Arr [Str ''rock'', Str ''pop'']) = ([HasMultipleValues ''tags''], Inr True)
   \<and> evaluate codeUnitOrder \<lparr>key = ''artist_name'', operator = LT, val = Multi [''a'', ''b'']\<rparr>
       (Str ''c'') = ([NoMultipleValues ''artist_name'' LT], Inr True)"
proof -
  have a: "isArray (Arr [Str ''rock'', Str ''pop''])"
    by simp
  from not_evaluable_is_satisfied [OF disjI1 [OF a],
      of "\<lparr>key = ''tags'', operator = EQ, val = Single ''rock''\<rparr>" codeUnitOrder
      "track_metadata (exampleListen 0)" "[]"]
  have b: "evaluate codeUnitOrder \<lparr>key = ''tags'', operator = EQ, val = Single ''rock''\<rparr>
      (Arr [Str ''rock'', Str ''pop'']) = ([HasMultipleValues ''tags''], Inr True)"
    by (auto simp add: evaluate_def evalCondition_def)
  have "\<exists>vs. val \<lparr>key = ''artist_name'', operator = LT, val = Multi [''a'', ''b'']\<rparr> = Multi vs
      \<and> operator \<lparr>key = ''artist_name'', operator = LT, val = Multi [''a'', ''b'']\<rparr> \<noteq> EQ
      \<and> operator \<lparr>key = ''artist_name'', operator = LT, val = Multi [''a'', ''b'']\<rparr> \<noteq> NE"
    by simp
  from not_evaluable_is_satisfied [OF disjI2 [OF this], of codeUnitOrder "Str ''c''"
      "track_metadata (exampleListen 0)" "[]"]
  have c: "evaluate codeUnitOrder \<lparr>key = ''artist_name'', operator = LT, val = Multi [''a'', ''b'']\<rparr>
      (Str ''c'') = ([NoMultipleValues ''artist_name'' LT], Inr True)"
    by (auto simp add: evaluate_def evalCondition_def)
  from a b c show ?thesis by blast
qed

section \<open>Properties of the filter\<close>

lemma js_le_Fin: "js_le (Fin a) (Fin b) = (a \<le> b)"
  by (auto simp add: js_le_def)

lemma js_ge_Fin: "js_ge (Fin a) (Fin b) = (b \<le> a)"
  by (auto simp add: js_ge_def js_le_def)

lemma not_inside_iff:
  "minTs \<noteq> NaN \<Longrightarrow> maxTs \<noteq> NaN \<Longrightarrow>
   (js_le (Fin t) minTs \<or> js_ge (Fin t) maxTs) = (\<not> (js_lt minTs (Fin t) \<and> js_lt (Fin t) maxTs))"
  by (simp add: js_le_def js_ge_def)

lemma timeBound_not_NaN: "timeBound h d fb = Inr ts \<Longrightarrow> ts \<noteq> NaN"
  by (auto simp add: timeBound_def isNaN_def Let_def split: if_splits)

lemma timeBound_given:
  "timeBound h d fb = Inr ts \<Longrightarrow> ts = (if given d then timestamp h (the d) else fb)"
  by (auto simp add: timeBound_def isNaN_def Let_def split: if_splits)

lemma getListenFilter_Inr:
  assumes "getListenFilter h spec opts = Inr p"
  shows "\<exists>minTs maxTs conditions.
           timeBound h (after opts) (Fin 0) = Inr minTs
           \<and> timeBound h (before opts) PInf = Inr maxTs
           \<and> p = listenFilter (localeCompare h) minTs maxTs conditions"
  using assms by (auto simp add: getListenFilter_def andThen_def split: sum.splits)

lemma listenFilter_outside:
  "js_le (Fin (of_int (listened_at l))) minTs \<or> js_ge (Fin (of_int (listened_at l))) maxTs \<Longrightarrow>
   listenFilter lc minTs maxTs conditions l = ([], Inr False)"
  by (simp add: listenFilter_def)

text \<open>
  C4. A filter that was built rejects every record whose timestamp is not strictly between
  the two bounds: the lower bound is the date \<open>after\<close> when it is given and 0 otherwise,
  the upper bound the date \<open>before\<close> when it is given and infinity otherwise. A record
  timestamped exactly at a bound is rejected.
\<close>

theorem time_range_is_open:
  assumes "getListenFilter h spec opts = Inr p"
  shows "\<exists>minTs maxTs.
           minTs = (if given (after opts) then timestamp h (the (after opts)) else Fin 0)
           \<and> maxTs = (if given (before opts) then timestamp h (the (before opts)) else PInf)
           \<and> (\<forall>l. \<not> (js_lt minTs (Fin (of_int (listened_at l)))
                      \<and> js_lt (Fin (of_int (listened_at l))) maxTs)
                  \<longrightarrow> p l = ([], Inr False))
           \<and> (\<forall>l. Fin (of_int (listened_at l)) = minTs \<or> Fin (of_int (listened_at l)) = maxTs
                  \<longrightarrow> p l = ([], Inr False))"
proof -
  from assms obtain minTs maxTs conditions where
    lo: "timeBound h (after opts) (Fin 0) = Inr minTs" and
    hi: "timeBound h (before opts) PInf = Inr maxTs" and
    p: "p = listenFilter (localeCompare h) minTs maxTs conditions"
    using getListenFilter_Inr by blast
  have nn: "minTs \<noteq> NaN" "maxTs \<noteq> NaN"
    using lo hi by (auto dest: timeBound_not_NaN)
  have outside: "p l = ([], Inr False)"
    if "\<not> (js_lt minTs (Fin (of_int (listened_at l))) \<and> js_lt (Fin (of_int (listened_at l))) maxTs)"
    for l
    using that nn p by (simp add: listenFilter_outside not_inside_iff)
  have bound: "p l = ([], Inr False)"
    if "Fin (of_int (listened_at l)) = minTs \<or> Fin (of_int (listened_at l)) = maxTs" for l
  proof -
    from that have "\<not> (js_lt minTs (Fin (of_int (listened_at l)))
        \<and> js_lt (Fin (of_int (listened_at l))) maxTs)"
      by auto
    then show ?thesis by (rule outside)
  qed
  from timeBound_given [OF lo] timeBound_given [OF hi] outside bound show ?thesis
    by blast
qed

lemma exampleFilter:
  "getListenFilter exampleHost None
     (noOptions\<lparr>after := Some ''1970-01-01T00:01:40Z'', before := Some ''1970-01-01T00:03:20Z''\<rparr>)
   = Inr (listenFilter codeUnitOrder (Fin 100) (Fin 200) [])"
  by (simp add: getListenFilter_def andThen_def parseConditions_def timeBound_def given_def
      isNaN_def loadOptional_def exampleHost_def noOptions_def)

theorem time_range_is_open_witness:
  "getListenFilter exampleHost None
     (noOptions\<lparr>after := Some ''1970-01-01T00:01:40Z'', before := Some ''1970-01-01T00:03:20Z''\<rparr>)
   = Inr (listenFilter codeUnitOrder (Fin 100) (Fin 200) [])
   \<and> listenFilter codeUnitOrder (Fin 100) (Fin 200) [] (exampleListen 100) = ([], Inr False)
   \<and> listenFilter codeUnitOrder (Fin 100) (Fin 200) [] (exampleListen 200) = ([], Inr False)
   \<and> listenFilter codeUnitOrder (Fin 100) (Fin 200) [] (exampleListen 150) = ([], Inr True)"
proof -
  let ?opts = "noOptions\<lparr>after := Some ''1970-01-01T00:01:40Z'',
    before := Some ''1970-01-01T00:03:20Z''\<rparr>"
  let ?p = "listenFilter codeUnitOrder (Fin 100) (Fin 200) []"
  have lo: "(if given (after ?opts) then timestamp exampleHost (the (after ?opts)) else Fin 0)
      = Fin 100"
    by (simp add: given_def exampleHost_def)
  have hi: "(if given (before ?opts) then timestamp exampleHost (the (before ?opts)) else PInf)
      = Fin 200"
    by (simp add: given_def exampleHost_def)
  from time_range_is_open [OF exampleFilter]
  have r: "\<forall>l. Fin (of_int (listened_at l)) = Fin 100 \<or> Fin (of_int (listened_at l)) = Fin 200
      \<longrightarrow> ?p l = ([], Inr False)"
    unfolding lo hi by blast
  have a: "?p (exampleListen 100) = ([], Inr False)"
    using r by (simp add: exampleListen_def)
  have b: "?p (exampleListen 200) = ([], Inr False)"
    using r by (simp add: exampleListen_def)
  have c: "?p (exampleListen 150) = ([], Inr True)"
    by (simp add: listenFilter_def exampleListen_def js_le_Fin js_ge_Fin)
  from exampleFilter a b c show ?thesis by blast
qed

text \<open>
  C10. When no date \<open>after\<close> is given the lower bound is 0, so a record whose timestamp
  is 0 or negative is rejected.
\<close>

theorem epoch_is_rejected_by_default:
  assumes "getListenFilter h spec opts = Inr p" and "\<not> given (after opts)"
    and "listened_at l \<le> 0"
  shows "p l = ([], Inr False)"
proof -
  from assms(1) obtain minTs maxTs conditions where
    lo: "timeBound h (after opts) (Fin 0) = Inr minTs" and
    p: "p = listenFilter (localeCompare h) minTs maxTs conditions"
    using getListenFilter_Inr by blast
  from timeBound_given [OF lo] assms(2) have "minTs = Fin 0" by simp
  with assms(3) have "js_le (Fin (of_int (listened_at l))) minTs"
    by (simp add: js_le_Fin)
  with p show ?thesis by (simp add: listenFilter_outside)
qed

lemma exampleFilterDefault:
  "getListenFilter exampleHost None noOptions = Inr (listenFilter codeUnitOrder (Fin 0) PInf [])"
  by (simp add: getListenFilter_def andThen_def parseConditions_def timeBound_def given_def
      isNaN_def loadOptional_def exampleHost_def noOptions_def)

theorem epoch_is_rejected_by_default_witness:
  "getListenFilter exampleHost None noOptions = Inr (listenFilter codeUnitOrder (Fin 0) PInf [])
   \<and> \<not> given (after noOptions)
   \<and> listened_at (exampleListen 0) \<le> 0
   \<and> listenFilter codeUnitOrder (Fin 0) PInf [] (exampleListen 0) = ([], Inr False)
   \<and> listenFilter codeUnitOrder (Fin 0) PInf [] (exampleListen 1) = ([], Inr True)"
proof -
  have a: "\<not> given (after noOptions)"
    by (simp add: given_def noOptions_def)
  have b: "listened_at (exampleListen 0) \<le> 0"
    by (simp add: exampleListen_def)
  note r = epoch_is_rejected_by_default [OF exampleFilterDefault a b]
  have c: "listenFilter codeUnitOrder (Fin 0) PInf [] (exampleListen 1) = ([], Inr True)"
    by (simp add: listenFilter_def exampleListen_def js_le_Fin js_ge_def js_le_def)
  from exampleFilterDefault a b r c show ?thesis by blast
qed

section \<open>Properties of the grammar\<close>

lemma matchAlternatives_operator:
  assumes "matchAlternatives operatorTokens rest = Some (op, r)"
  shows "startsWith (tokenOf op) rest \<and> r = drop (length (tokenOf op)) rest"
  using assms by (auto simp add: operatorTokens_def split: if_splits)

lemma matchAlternatives_longest:
  assumes "matchAlternatives operatorTokens rest = Some (op, r)"
    and "startsWith (tokenOf op') rest"
  shows "length (tokenOf op') \<le> length (tokenOf op)"
proof (cases rest)
  case Nil
  with assms(2) show ?thesis by (cases op') simp_all
next
  case (Cons x xs)
  with assms show ?thesis
    by (cases op'; cases op) (auto simp add: operatorTokens_def split: if_splits)
qed

lemma matchAlternatives_LE:
  "startsWith ''<='' rest \<Longrightarrow>
   matchAlternatives operatorTokens rest = Some (LE, drop 2 rest)"
  by (cases rest) (auto simp add: operatorTokens_def)

lemma matchAlternatives_GE:
  "startsWith ''>='' rest \<Longrightarrow>
   matchAlternatives operatorTokens rest = Some (GE, drop 2 rest)"
  by (cases rest) (auto simp add: operatorTokens_def)

lemma matchAlternatives_some:
  assumes "startsWith (tokenOf op) rest"
  shows "\<exists>op' r. matchAlternatives operatorTokens rest = Some (op', r)"
proof (cases rest)
  case Nil
  with assms show ?thesis by (cases op) simp_all
next
  case (Cons x xs)
  with assms show ?thesis
    by (cases op) (auto simp add: operatorTokens_def)
qed

lemma matchAlternatives_none:
  assumes "\<forall>op. \<not> startsWith (tokenOf op) rest"
  shows "matchAlternatives operatorTokens rest = None"
proof -
  from assms have "\<not> startsWith (tokenOf EQ) rest" "\<not> startsWith (tokenOf NE) rest"
    "\<not> startsWith (tokenOf LE) rest" "\<not> startsWith (tokenOf LT) rest"
    "\<not> startsWith (tokenOf GE) rest" "\<not> startsWith (tokenOf GT) rest"
    "\<not> startsWith (tokenOf XOR) rest"
    by blast+
  then show ?thesis by (simp add: operatorTokens_def)
qed

lemma startsWith_same_length:
  "startsWith p s \<Longrightarrow> startsWith q s \<Longrightarrow> length p = length q \<Longrightarrow> p = q"
  by (induction p s arbitrary: q rule: startsWith.induct) (case_tac q; simp)+

lemma tokenOf_inject: "tokenOf op = tokenOf op' \<Longrightarrow> op = op'"
  by (cases op; cases op') simp_all

lemma matchAlternatives_the_longest:
  assumes "startsWith (tokenOf op) rest"
    and "\<forall>op'. startsWith (tokenOf op') rest \<longrightarrow> length (tokenOf op') \<le> length (tokenOf op)"
  shows "matchAlternatives operatorTokens rest = Some (op, drop (length (tokenOf op)) rest)"
proof -
  from matchAlternatives_some [OF assms(1)] obtain op' r where
    m: "matchAlternatives operatorTokens rest = Some (op', r)"
    by blast
  from matchAlternatives_operator [OF m] have
    s: "startsWith (tokenOf op') rest" and r: "r = drop (length (tokenOf op')) rest"
    by simp_all
  from assms(2) s have "length (tokenOf op') \<le> length (tokenOf op)"
    by blast
  moreover from matchAlternatives_longest [OF m assms(1)]
  have "length (tokenOf op) \<le> length (tokenOf op')" .
  ultimately have "length (tokenOf op') = length (tokenOf op)"
    by simp
  with s assms(1) have "tokenOf op' = tokenOf op"
    by (rule startsWith_same_length)
  then have "op' = op" by (rule tokenOf_inject)
  with m r show ?thesis by simp
qed

lemma parseCondition_Inr:
  assumes "parseCondition e = Inr c"
  shows "\<exists>r. matchAlternatives operatorTokens (dropWhile isWordChar e) = Some (operator c, r)
           \<and> key c = takeWhile isWordChar e \<and> key c \<noteq> []
           \<and> val c = Single (takeWhile (\<lambda>x. \<not> isLineTerminator x) r)"
  using assms
  by (auto simp add: parseCondition_def Let_def split: if_splits option.splits)

lemma parseCondition_match:
  assumes "takeWhile isWordChar e \<noteq> []"
    and "matchAlternatives operatorTokens (dropWhile isWordChar e) = Some (op, r)"
  shows "parseCondition e =
           Inr \<lparr>key = takeWhile isWordChar e, operator = op,
                val = Single (takeWhile (\<lambda>x. \<not> isLineTerminator x) r)\<rparr>"
  using assms by (simp add: parseCondition_def Let_def)

lemma parseCondition_no_match:
  assumes "takeWhile isWordChar e = []
     \<or> matchAlternatives operatorTokens (dropWhile isWordChar e) = None"
  shows "parseCondition e = Inl (InvalidFilterExpression e)"
  using assms by (auto simp add: parseCondition_def Let_def)

lemma mapResult_Inr:
  "mapResult f xs = Inr ys \<Longrightarrow> list_all2 (\<lambda>x y. f x = Inr y) xs ys"
  by (induction xs arbitrary: ys) (auto split: sum.splits)

lemma mapResult_all:
  "list_all2 (\<lambda>x y. f x = Inr y) xs ys \<Longrightarrow> mapResult f xs = Inr ys"
  by (induction xs ys rule: list_all2_induct) simp_all

lemma mapResult_first_error:
  "list_all2 (\<lambda>x y. f x = Inr y) pre ys \<Longrightarrow> f x = Inl err \<Longrightarrow>
   mapResult f (pre @ x # post) = Inl err"
  by (induction pre ys rule: list_all2_induct) simp_all

lemma parse_duration:
  "parseCondition ''duration_ms>=30000''
     = Inr \<lparr>key = ''duration_ms'', operator = GE, val = Single ''30000''\<rparr>"
  by (simp add: parseCondition_def isWordChar_def isLineTerminator_def operatorTokens_def)

lemma longest_parse:
  assumes "takeWhile isWordChar e \<noteq> []"
    and "startsWith (tokenOf op) (dropWhile isWordChar e)"
    and "\<forall>op'. startsWith (tokenOf op') (dropWhile isWordChar e)
           \<longrightarrow> length (tokenOf op') \<le> length (tokenOf op)"
  shows "parseCondition e =
      Inr \<lparr>key = takeWhile isWordChar e, operator = op,
           val = Single (takeWhile (\<lambda>x. \<not> isLineTerminator x)
                   (drop (length (tokenOf op)) (dropWhile isWordChar e)))\<rparr>"
proof -
  from assms(2,3) have "matchAlternatives operatorTokens (dropWhile isWordChar e)
      = Some (op, drop (length (tokenOf op)) (dropWhile isWordChar e))"
    by (rule matchAlternatives_the_longest)
  with assms(1) show ?thesis by (rule parseCondition_match)
qed

lemma some_parse:
  assumes "takeWhile isWordChar e \<noteq> []"
    and "startsWith (tokenOf op) (dropWhile isWordChar e)"
  shows "\<exists>c. parseCondition e = Inr c"
proof -
  from matchAlternatives_some [OF assms(2)] obtain op' r where
    "matchAlternatives operatorTokens (dropWhile isWordChar e) = Some (op', r)"
    by blast
  from parseCondition_match [OF assms(1) this] show ?thesis
    by (rule exI)
qed

lemma no_parse:
  assumes "takeWhile isWordChar e = []
     \<or> (\<forall>op. \<not> startsWith (tokenOf op) (dropWhile isWordChar e))"
  shows "parseCondition e = Inl (InvalidFilterExpression e)"
proof -
  from assms have "takeWhile isWordChar e = []
      \<or> matchAlternatives operatorTokens (dropWhile isWordChar e) = None"
  proof
    assume "takeWhile isWordChar e = []"
    then show ?thesis by (rule disjI1)
  next
    assume "\<forall>op. \<not> startsWith (tokenOf op) (dropWhile isWordChar e)"
    then have "matchAlternatives operatorTokens (dropWhile isWordChar e) = None"
      by (rule matchAlternatives_none)
    then show ?thesis by (rule disjI2)
  qed
  then show ?thesis by (rule parseCondition_no_match)
qed

lemma parsed_clause:
  assumes c: "parseCondition e = Inr c"
  shows "key c = takeWhile isWordChar e"
    and "startsWith (tokenOf (operator c)) (dropWhile isWordChar e)"
    and "\<And>op. startsWith (tokenOf op) (dropWhile isWordChar e)
           \<Longrightarrow> length (tokenOf op) \<le> length (tokenOf (operator c))"
    and "val c = Single (takeWhile (\<lambda>x. \<not> isLineTerminator x)
                  (drop (length (tokenOf (operator c))) (dropWhile isWordChar e)))"
    and "startsWith ''<='' (dropWhile isWordChar e) \<Longrightarrow> operator c = LE"
    and "startsWith ''>='' (dropWhile isWordChar e) \<Longrightarrow> operator c = GE"
proof -
  let ?rest = "dropWhile isWordChar e"
  from parseCondition_Inr [OF c] obtain r where
    m: "matchAlternatives operatorTokens ?rest = Some (operator c, r)" and
    k: "key c = takeWhile isWordChar e" and
    v: "val c = Single (takeWhile (\<lambda>x. \<not> isLineTerminator x) r)"
    by blast
  from matchAlternatives_operator [OF m] have
    s: "startsWith (tokenOf (operator c)) ?rest" and
    r: "r = drop (length (tokenOf (operator c))) ?rest"
    by simp_all
  show "key c = takeWhile isWordChar e" by (rule k)
  show "startsWith (tokenOf (operator c)) ?rest" by (rule s)
  show "length (tokenOf op) \<le> length (tokenOf (operator c))"
    if "startsWith (tokenOf op) ?rest" for op
    using m that by (rule matchAlternatives_longest)
  show "val c = Single (takeWhile (\<lambda>x. \<not> isLineTerminator x)
      (drop (length (tokenOf (operator c))) ?rest))"
    using v r by simp
  show "operator c = LE" if "startsWith ''<='' ?rest"
    using m matchAlternatives_LE [OF that] by simp
  show "operator c = GE" if "startsWith ''>='' ?rest"
    using m matchAlternatives_GE [OF that] by simp
qed

lemma parseConditions_iff:
  "parseConditions (Some text) = Inr cs
     \<longleftrightarrow> list_all2 (\<lambda>x y. parseCondition x = Inr y) (splitAnd text) cs"
  unfolding parseConditions_def option.case
  using mapResult_Inr [of parseCondition "splitAnd text" cs]
    mapResult_all [of parseCondition "splitAnd text" cs]
  by (rule iffI)

lemma parseConditions_first_error:
  assumes "splitAnd text = pre @ x # post"
    and "list_all2 (\<lambda>x y. parseCondition x = Inr y) pre cs"
    and "parseCondition x = Inl err"
  shows "parseConditions (Some text) = Inl err"
  using mapResult_first_error [OF assms(2,3), of post] assms(1)
  by (simp add: parseConditions_def)

text \<open>
  C7. A clause parses iff it starts with a word character and the text after the longest
  run of word characters starts with a token of the pattern. The key is then that run,
  the operator is the longest token the text after the key starts with (\<open><=\<close> wins over
  \<open><\<close> and \<open>>=\<close> over \<open>>\<close>), and the operand is the rest of the line; any other clause
  throws \<open>InvalidFilterExpression\<close>. A filter text parses iff every clause between two
  \<open>&&\<close> does, to the list of their conditions, and fails with the error of its first
  clause that does not parse. So \<open>duration_ms>=30000\<close> has the key \<open>duration_ms\<close>, the
  operator \<open>>=\<close> and the operand \<open>30000\<close>.
\<close>

theorem operator_longest_match:
  "(\<forall>op. takeWhile isWordChar e \<noteq> []
         \<and> startsWith (tokenOf op) (dropWhile isWordChar e)
         \<and> (\<forall>op'. startsWith (tokenOf op') (dropWhile isWordChar e)
                \<longrightarrow> length (tokenOf op') \<le> length (tokenOf op))
      \<longrightarrow> parseCondition e =
            Inr \<lparr>key = takeWhile isWordChar e, operator = op,
                 val = Single (takeWhile (\<lambda>x. \<not> isLineTerminator x)
                         (drop (length (tokenOf op)) (dropWhile isWordChar e)))\<rparr>)
   \<and> (takeWhile isWordChar e \<noteq> [] \<and> (\<exists>op. startsWith (tokenOf op) (dropWhile isWordChar e))
        \<longrightarrow> (\<exists>c. parseCondition e = Inr c))
   \<and> (takeWhile isWordChar e = [] \<or> (\<forall>op. \<not> startsWith (tokenOf op) (dropWhile isWordChar e))
        \<longrightarrow> parseCondition e = Inl (InvalidFilterExpression e))
   \<and> (\<forall>c. parseCondition e = Inr c \<longrightarrow>
          key c = takeWhile isWordChar e
          \<and> startsWith (tokenOf (operator c)) (dropWhile isWordChar e)
          \<and> (\<forall>op. startsWith (tokenOf op) (dropWhile isWordChar e)
                 \<longrightarrow> length (tokenOf op) \<le> length (tokenOf (operator c)))
          \<and> val c = Single (takeWhile (\<lambda>x. \<not> isLineTerminator x)
                      (drop (length (tokenOf (operator c))) (dropWhile isWordChar e)))
          \<and> (startsWith ''<='' (dropWhile isWordChar e) \<longrightarrow> operator c = LE)
          \<and> (startsWith ''>='' (dropWhile isWordChar e) \<longrightarrow> operator c = GE))
   \<and> (\<forall>cs. parseConditions (Some text) = Inr cs
          \<longleftrightarrow> list_all2 (\<lambda>x y. parseCondition x = Inr y) (splitAnd text) cs)
   \<and> (\<forall>pre cs x post err.
          splitAnd text = pre @ x # post
          \<and> list_all2 (\<lambda>x y. parseCondition x = Inr y) pre cs
          \<and> parseCondition x = Inl err
          \<longrightarrow> parseConditions (Some text) = Inl err)
   \<and> parseConditions None = Inr []
   \<and> parseCondition ''duration_ms>=30000''
        = Inr \<lparr>key = ''duration_ms'', operator = GE, val = Single ''30000''\<rparr>"
proof (intro conjI allI impI)
  fix op
  assume "takeWhile isWordChar e \<noteq> []
    \<and> startsWith (tokenOf op) (dropWhile isWordChar e)
    \<and> (\<forall>op'. startsWith (tokenOf op') (dropWhile isWordChar e)
           \<longrightarrow> length (tokenOf op') \<le> length (tokenOf op))"
  then show "parseCondition e =
      Inr \<lparr>key = takeWhile isWordChar e, operator = op,
           val = Single (takeWhile (\<lambda>x. \<not> isLineTerminator x)
                   (drop (length (tokenOf op)) (dropWhile isWordChar e)))\<rparr>"
    by (elim conjE) (rule longest_parse)
next
  assume "takeWhile isWordChar e \<noteq> []
    \<and> (\<exists>op. startsWith (tokenOf op) (dropWhile isWordChar e))"
  then show "\<exists>c. parseCondition e = Inr c"
    by (elim conjE exE) (rule some_parse)
next
  assume "takeWhile isWordChar e = []
    \<or> (\<forall>op. \<not> startsWith (tokenOf op) (dropWhile isWordChar e))"
  then show "parseCondition e = Inl (InvalidFilterExpression e)"
    by (rule no_parse)
next
  fix c
  assume c: "parseCondition e = Inr c"
  show "key c = takeWhile isWordChar e"
    by (rule parsed_clause(1) [OF c])
  show "startsWith (tokenOf (operator c)) (dropWhile isWordChar e)"
    by (rule parsed_clause(2) [OF c])
  show "val c = Single (takeWhile (\<lambda>x. \<not> isLineTerminator x)
      (drop (length (tokenOf (operator c))) (dropWhile isWordChar e)))"
    by (rule parsed_clause(4) [OF c])
  show "length (tokenOf op) \<le> length (tokenOf (operator c))"
    if "startsWith (tokenOf op) (dropWhile isWordChar e)" for op
    using that by (rule parsed_clause(3) [OF c])
  show "operator c = LE" if "startsWith ''<='' (dropWhile isWordChar e)"
    using that by (rule parsed_clause(5) [OF c])
  show "operator c = GE" if "startsWith ''>='' (dropWhile isWordChar e)"
    using that by (rule parsed_clause(6) [OF c])
next
  fix cs
  show "parseConditions (Some text) = Inr cs
     \<longleftrightarrow> list_all2 (\<lambda>x y. parseCondition x = Inr y) (splitAnd text) cs"
    by (rule parseConditions_iff)
next
  fix pre cs x post err
  assume "splitAnd text = pre @ x # post
    \<and> list_all2 (\<lambda>x y. parseCondition x = Inr y) pre cs
    \<and> parseCondition x = Inl err"
  then show "parseConditions (Some text) = Inl err"
    by (elim conjE) (rule parseConditions_first_error)
next
  show "parseConditions None = Inr []"
    by (simp add: parseConditions_def)
next
  show "parseCondition ''duration_ms>=30000''
      = Inr \<lparr>key = ''duration_ms'', operator = GE, val = Single ''30000''\<rparr>"
    by (rule parse_duration)
qed

theorem operator_longest_match_witness:
  "takeWhile isWordChar ''duration_ms>=30000'' \<noteq> []
   \<and> startsWith (tokenOf GE) (dropWhile isWordChar ''duration_ms>=30000'')
   \<and> startsWith (tokenOf GT) (dropWhile isWordChar ''duration_ms>=30000'')
   \<and> parseCondition ''duration_ms>=30000''
       = Inr \<lparr>key = ''duration_ms'', operator = GE, val = Single ''30000''\<rparr>
   \<and> parseCondition ''artist_name=Foo'' = Inl (InvalidFilterExpression ''artist_name=Foo'')
   \<and> parseConditions (Some ''skipped!=1&&duration_ms>=30e3'')
       = Inr [\<lparr>key = ''skipped'', operator = NE, val = Single ''1''\<rparr>,
              \<lparr>key = ''duration_ms'', operator = GE, val = Single ''30e3''\<rparr>]"
proof -
  let ?d = "''duration_ms>=30000''"
  let ?a = "''artist_name=Foo''"
  let ?t = "''skipped!=1&&duration_ms>=30e3''"
  let ?cs = "[\<lparr>key = ''skipped'', operator = NE, val = Single ''1''\<rparr>,
              \<lparr>key = ''duration_ms'', operator = GE, val = Single ''30e3''\<rparr>]"
  have k: "takeWhile isWordChar ?d \<noteq> []"
    by code_simp
  have rest: "dropWhile isWordChar ?d = ''>=30000''"
    by code_simp
  have ge: "startsWith (tokenOf GE) (dropWhile isWordChar ?d)"
    unfolding rest by simp
  have gt: "startsWith (tokenOf GT) (dropWhile isWordChar ?d)"
    unfolding rest by simp
  have longest: "\<forall>op'. startsWith (tokenOf op') (dropWhile isWordChar ?d)
      \<longrightarrow> length (tokenOf op') \<le> length (tokenOf GE)"
  proof (intro allI impI)
    fix op'
    assume "startsWith (tokenOf op') (dropWhile isWordChar ?d)"
    then show "length (tokenOf op') \<le> length (tokenOf GE)"
      unfolding rest by (cases op') simp_all
  qed
  from operator_longest_match [of ?d ?t]
  have "\<forall>op. takeWhile isWordChar ?d \<noteq> []
         \<and> startsWith (tokenOf op) (dropWhile isWordChar ?d)
         \<and> (\<forall>op'. startsWith (tokenOf op') (dropWhile isWordChar ?d)
                \<longrightarrow> length (tokenOf op') \<le> length (tokenOf op))
      \<longrightarrow> parseCondition ?d =
            Inr \<lparr>key = takeWhile isWordChar ?d, operator = op,
                 val = Single (takeWhile (\<lambda>x. \<not> isLineTerminator x)
                         (drop (length (tokenOf op)) (dropWhile isWordChar ?d)))\<rparr>"
    by (rule conjunct1)
  then have "takeWhile isWordChar ?d \<noteq> []
         \<and> startsWith (tokenOf GE) (dropWhile isWordChar ?d)
         \<and> (\<forall>op'. startsWith (tokenOf op') (dropWhile isWordChar ?d)
                \<longrightarrow> length (tokenOf op') \<le> length (tokenOf GE))
      \<longrightarrow> parseCondition ?d =
            Inr \<lparr>key = takeWhile isWordChar ?d, operator = GE,
                 val = Single (takeWhile (\<lambda>x. \<not> isLineTerminator x)
                         (drop (length (tokenOf GE)) (dropWhile isWordChar ?d)))\<rparr>"
    by (rule spec)
  moreover from k ge longest have "takeWhile isWordChar ?d \<noteq> []
         \<and> startsWith (tokenOf GE) (dropWhile isWordChar ?d)
         \<and> (\<forall>op'. startsWith (tokenOf op') (dropWhile isWordChar ?d)
                \<longrightarrow> length (tokenOf op') \<le> length (tokenOf GE))"
    by (intro conjI)
  ultimately have "parseCondition ?d =
      Inr \<lparr>key = takeWhile isWordChar ?d, operator = GE,
           val = Single (takeWhile (\<lambda>x. \<not> isLineTerminator x)
                   (drop (length (tokenOf GE)) (dropWhile isWordChar ?d)))\<rparr>"
    by (rule mp)
  then have p: "parseCondition ?d
      = Inr \<lparr>key = ''duration_ms'', operator = GE, val = Single ''30000''\<rparr>"
    by (simp add: isWordChar_def isLineTerminator_def)
  have arest: "dropWhile isWordChar ?a = ''=Foo''"
    by code_simp
  have none: "\<forall>op. \<not> startsWith (tokenOf op) (dropWhile isWordChar ?a)"
  proof
    fix op
    show "\<not> startsWith (tokenOf op) (dropWhile isWordChar ?a)"
      unfolding arest by (cases op) simp_all
  qed
  from operator_longest_match [of ?a ?t]
  have "takeWhile isWordChar ?a = []
      \<or> (\<forall>op. \<not> startsWith (tokenOf op) (dropWhile isWordChar ?a))
      \<longrightarrow> parseCondition ?a = Inl (InvalidFilterExpression ?a)"
    by (elim conjE)
  moreover from none have "takeWhile isWordChar ?a = []
      \<or> (\<forall>op. \<not> startsWith (tokenOf op) (dropWhile isWordChar ?a))"
    by (rule disjI2)
  ultimately have f: "parseCondition ?a = Inl (InvalidFilterExpression ?a)"
    by (rule mp)
  from operator_longest_match [of ?d ?t]
  have "\<forall>cs. parseConditions (Some ?t) = Inr cs
      \<longleftrightarrow> list_all2 (\<lambda>x y. parseCondition x = Inr y) (splitAnd ?t) cs"
    by (elim conjE)
  then have "parseConditions (Some ?t) = Inr ?cs
      \<longleftrightarrow> list_all2 (\<lambda>x y. parseCondition x = Inr y) (splitAnd ?t) ?cs"
    by (rule spec)
  then have t: "parseConditions (Some ?t) = Inr ?cs"
    by (simp add: parseCondition_def isWordChar_def isLineTerminator_def operatorTokens_def)
  show ?thesis
    by (intro conjI) (rule k ge gt p f t)+
qed

section \<open>Properties of the list files\<close>

lemma loadEntries_not_a_list:
  assumes "(k, YamlOther v) \<in> set entries"
  shows "\<exists>pre k' v' post.
           entries = pre @ (k', YamlOther v') # post
           \<and> (\<forall>x\<in>set pre. \<exists>vs. snd x = YamlList vs)
           \<and> (\<forall>path op conditions.
                 loadEntries path op entries conditions = Inl (NotAList k' path))"
  using assms
proof (induction entries)
  case Nil
  then show ?case by simp
next
  case (Cons x entries)
  obtain k0 y where x: "x = (k0, y)"
    by (cases x)
  show ?case
  proof (cases y)
    case (YamlList vs)
    with Cons.prems x have "(k, YamlOther v) \<in> set entries"
      by simp
    from Cons.IH [OF this] obtain pre k' v' post where
      e: "entries = pre @ (k', YamlOther v') # post" and
      p: "\<forall>x\<in>set pre. \<exists>vs. snd x = YamlList vs" and
      l: "\<forall>path op conditions.
            loadEntries path op entries conditions = Inl (NotAList k' path)"
      by blast
    from e x YamlList have "x # entries = (x # pre) @ (k', YamlOther v') # post"
      by simp
    moreover from p x YamlList have "\<forall>z\<in>set (x # pre). \<exists>vs. snd z = YamlList vs"
      by simp
    moreover from l x YamlList have "\<forall>path op conditions.
        loadEntries path op (x # entries) conditions = Inl (NotAList k' path)"
      by simp
    ultimately show ?thesis by blast
  next
    case (YamlOther v0)
    with x have "x # entries = [] @ (k0, YamlOther v0) # entries"
      by simp
    moreover have "\<forall>z\<in>set ([] :: (string \<times> yaml_entry) list). \<exists>vs. snd z = YamlList vs"
      by simp
    moreover from x YamlOther have "\<forall>path op conditions.
        loadEntries path op (x # entries) conditions = Inl (NotAList k0 path)"
      by simp
    ultimately show ?thesis by blast
  qed
qed

lemma getListenFilter_exclude_error:
  assumes "parseConditions spec = Inr cs"
    and "timeBound h (after opts) (Fin 0) = Inr minTs"
    and "timeBound h (before opts) PInf = Inr maxTs"
    and "loadOptional h (excludeList opts) NE cs = Inl err"
  shows "getListenFilter h spec opts = Inl err"
  using assms by (simp add: getListenFilter_def andThen_def)

lemma getListenFilter_include_error:
  assumes "parseConditions spec = Inr cs"
    and "timeBound h (after opts) (Fin 0) = Inr minTs"
    and "timeBound h (before opts) PInf = Inr maxTs"
    and "loadOptional h (excludeList opts) NE cs = Inr cs'"
    and "loadOptional h (includeList opts) EQ cs' = Inl err"
  shows "getListenFilter h spec opts = Inl err"
  using assms by (simp add: getListenFilter_def andThen_def)

lemma getListenFilter_list_fails:
  assumes "\<And>op cs. \<exists>e. loadOptional h (Some path) op cs = Inl e"
    and "excludeList opts = Some path \<or> includeList opts = Some path"
  shows "\<exists>e. getListenFilter h spec opts = Inl e"
proof (cases "getListenFilter h spec opts")
  case (Inl e)
  then show ?thesis by blast
next
  case (Inr p)
  then obtain c1 c2 where
    x: "loadOptional h (excludeList opts) NE c1 = Inr c2" and
    i: "\<exists>c3. loadOptional h (includeList opts) EQ c2 = Inr c3"
    by (auto simp add: getListenFilter_def andThen_def split: sum.splits)
  from assms(2) show ?thesis
  proof
    assume "excludeList opts = Some path"
    with x assms(1) [of NE c1] show ?thesis by auto
  next
    assume "includeList opts = Some path"
    with i assms(1) [of EQ c2] show ?thesis by auto
  qed
qed

text \<open>
  C6. When a list file holds a key whose value is not a list, loading it throws
  \<open>NotAList\<close> with the first such key the loop meets and the path of the file. Building
  a filter with this file as exclude list or as include list then always fails, so no
  record is ever evaluated. When the filter text and the dates are valid, the error of
  the construction is that \<open>NotAList\<close>, naming the key and the file: for the exclude
  list, and for the include list once the exclude list has loaded.
\<close>

theorem list_file_entry_must_be_list:
  assumes "readYaml h path = Inr entries" and "(k, YamlOther v) \<in> set entries"
    and "path \<noteq> []"
  shows "\<exists>pre k' v' post.
           entries = pre @ (k', YamlOther v') # post
           \<and> (\<forall>x\<in>set pre. \<exists>vs. snd x = YamlList vs)
           \<and> (\<forall>op conditions.
                 loadConditionsFromYaml h path op conditions = Inl (NotAList k' path))
           \<and> (\<forall>opts spec.
                 excludeList opts = Some path \<or> includeList opts = Some path
                 \<longrightarrow> (\<exists>e. getListenFilter h spec opts = Inl e))
           \<and> (\<forall>opts spec.
                 excludeList opts = Some path
                 \<and> (\<exists>cs. parseConditions spec = Inr cs)
                 \<and> (\<exists>minTs. timeBound h (after opts) (Fin 0) = Inr minTs)
                 \<and> (\<exists>maxTs. timeBound h (before opts) PInf = Inr maxTs)
                 \<longrightarrow> getListenFilter h spec opts = Inl (NotAList k' path))
           \<and> (\<forall>opts spec.
                 includeList opts = Some path
                 \<and> (\<exists>cs cs'. parseConditions spec = Inr cs
                       \<and> loadOptional h (excludeList opts) NE cs = Inr cs')
                 \<and> (\<exists>minTs. timeBound h (after opts) (Fin 0) = Inr minTs)
                 \<and> (\<exists>maxTs. timeBound h (before opts) PInf = Inr maxTs)
                 \<longrightarrow> getListenFilter h spec opts = Inl (NotAList k' path))"
proof -
  from loadEntries_not_a_list [OF assms(2)] obtain pre k' v' post where
    e: "entries = pre @ (k', YamlOther v') # post" and
    p: "\<forall>x\<in>set pre. \<exists>vs. snd x = YamlList vs" and
    l: "\<forall>path op conditions.
          loadEntries path op entries conditions = Inl (NotAList k' path)"
    by blast
  have first: "loadConditionsFromYaml h path op conditions = Inl (NotAList k' path)
      \<and> loadOptional h (Some path) op conditions = Inl (NotAList k' path)"
    for op conditions
    using l assms(1,3) by (simp add: loadConditionsFromYaml_def loadOptional_def given_def)
  have load: "\<forall>op conditions.
      loadConditionsFromYaml h path op conditions = Inl (NotAList k' path)"
    using first by blast
  have never: "\<forall>opts spec.
      excludeList opts = Some path \<or> includeList opts = Some path
      \<longrightarrow> (\<exists>e. getListenFilter h spec opts = Inl e)"
  proof (intro allI impI)
    fix opts :: options and spec
    assume "excludeList opts = Some path \<or> includeList opts = Some path"
    moreover have "\<exists>e. loadOptional h (Some path) op cs = Inl e" for op cs
      using first [of op cs] by blast
    ultimately show "\<exists>e. getListenFilter h spec opts = Inl e"
      using getListenFilter_list_fails by blast
  qed
  have excl: "\<forall>opts spec.
      excludeList opts = Some path
      \<and> (\<exists>cs. parseConditions spec = Inr cs)
      \<and> (\<exists>minTs. timeBound h (after opts) (Fin 0) = Inr minTs)
      \<and> (\<exists>maxTs. timeBound h (before opts) PInf = Inr maxTs)
      \<longrightarrow> getListenFilter h spec opts = Inl (NotAList k' path)"
  proof (intro allI impI, elim conjE exE)
    fix opts :: options and spec cs minTs maxTs
    assume x: "excludeList opts = Some path" and cs: "parseConditions spec = Inr cs"
      and lo: "timeBound h (after opts) (Fin 0) = Inr minTs"
      and hi: "timeBound h (before opts) PInf = Inr maxTs"
    from first [of NE cs] x have "loadOptional h (excludeList opts) NE cs = Inl (NotAList k' path)"
      by simp
    with cs lo hi show "getListenFilter h spec opts = Inl (NotAList k' path)"
      by (rule getListenFilter_exclude_error)
  qed
  have incl: "\<forall>opts spec.
      includeList opts = Some path
      \<and> (\<exists>cs cs'. parseConditions spec = Inr cs
            \<and> loadOptional h (excludeList opts) NE cs = Inr cs')
      \<and> (\<exists>minTs. timeBound h (after opts) (Fin 0) = Inr minTs)
      \<and> (\<exists>maxTs. timeBound h (before opts) PInf = Inr maxTs)
      \<longrightarrow> getListenFilter h spec opts = Inl (NotAList k' path)"
  proof (intro allI impI, elim conjE exE)
    fix opts :: options and spec cs cs' minTs maxTs
    assume i: "includeList opts = Some path" and cs: "parseConditions spec = Inr cs"
      and x: "loadOptional h (excludeList opts) NE cs = Inr cs'"
      and lo: "timeBound h (after opts) (Fin 0) = Inr minTs"
      and hi: "timeBound h (before opts) PInf = Inr maxTs"
    from first [of EQ cs'] i
    have "loadOptional h (includeList opts) EQ cs' = Inl (NotAList k' path)"
      by simp
    with cs lo hi x show "getListenFilter h spec opts = Inl (NotAList k' path)"
      by (rule getListenFilter_include_error)
  qed
  from e p load never excl incl show ?thesis
    by (intro exI conjI)
qed

lemma exampleHost_readYaml:
  "readYaml exampleHost ''exclude.yml'' = Inr [(''artist_name'', YamlOther (Str ''Foo''))]"
  by (simp add: exampleHost_def)

theorem list_file_entry_must_be_list_witness:
  "readYaml exampleHost ''exclude.yml'' = Inr [(''artist_name'', YamlOther (Str ''Foo''))]
   \<and> loadConditionsFromYaml exampleHost ''exclude.yml'' NE []
       = Inl (NotAList ''artist_name'' ''exclude.yml'')
   \<and> getListenFilter exampleHost None (noOptions\<lparr>excludeList := Some ''exclude.yml''\<rparr>)
       = Inl (NotAList ''artist_name'' ''exclude.yml'')
   \<and> getListenFilter exampleHost None (noOptions\<lparr>includeList := Some ''exclude.yml''\<rparr>)
       = Inl (NotAList ''artist_name'' ''exclude.yml'')"
proof -
  let ?x = "noOptions\<lparr>excludeList := Some ''exclude.yml''\<rparr>"
  let ?i = "noOptions\<lparr>includeList := Some ''exclude.yml''\<rparr>"
  have m: "(''artist_name'', YamlOther (Str ''Foo''))
      \<in> set [(''artist_name'', YamlOther (Str ''Foo''))]"
    by simp
  have n: "''exclude.yml'' \<noteq> []"
    by simp
  from list_file_entry_must_be_list [OF exampleHost_readYaml m n]
  obtain pre k' v' post where
    e: "[(''artist_name'', YamlOther (Str ''Foo''))] = pre @ (k', YamlOther v') # post" and
    l: "\<forall>op conditions.
          loadConditionsFromYaml exampleHost ''exclude.yml'' op conditions
            = Inl (NotAList k' ''exclude.yml'')" and
    x: "\<forall>opts spec.
          excludeList opts = Some ''exclude.yml''
          \<and> (\<exists>cs. parseConditions spec = Inr cs)
          \<and> (\<exists>minTs. timeBound exampleHost (after opts) (Fin 0) = Inr minTs)
          \<and> (\<exists>maxTs. timeBound exampleHost (before opts) PInf = Inr maxTs)
          \<longrightarrow> getListenFilter exampleHost spec opts = Inl (NotAList k' ''exclude.yml'')" and
    i: "\<forall>opts spec.
          includeList opts = Some ''exclude.yml''
          \<and> (\<exists>cs cs'. parseConditions spec = Inr cs
                \<and> loadOptional exampleHost (excludeList opts) NE cs = Inr cs')
          \<and> (\<exists>minTs. timeBound exampleHost (after opts) (Fin 0) = Inr minTs)
          \<and> (\<exists>maxTs. timeBound exampleHost (before opts) PInf = Inr maxTs)
          \<longrightarrow> getListenFilter exampleHost spec opts = Inl (NotAList k' ''exclude.yml'')"
    by (elim exE conjE) (rule that)
  from e have k: "k' = ''artist_name''"
    by (simp add: Cons_eq_append_conv)
  from l k have a: "loadConditionsFromYaml exampleHost ''exclude.yml'' NE []
      = Inl (NotAList ''artist_name'' ''exclude.yml'')"
    by simp
  have c: "\<exists>cs. parseConditions None = Inr cs"
    by (simp add: parseConditions_def)
  have lo: "\<exists>minTs. timeBound exampleHost (after opts) (Fin 0) = Inr minTs"
    if "after opts = None" for opts :: options
    using that by (simp add: timeBound_def given_def isNaN_def)
  have hi: "\<exists>maxTs. timeBound exampleHost (before opts) PInf = Inr maxTs"
    if "before opts = None" for opts :: options
    using that by (simp add: timeBound_def given_def isNaN_def)
  have "excludeList ?x = Some ''exclude.yml''
      \<and> (\<exists>cs. parseConditions None = Inr cs)
      \<and> (\<exists>minTs. timeBound exampleHost (after ?x) (Fin 0) = Inr minTs)
      \<and> (\<exists>maxTs. timeBound exampleHost (before ?x) PInf = Inr maxTs)"
    using c lo [of ?x] hi [of ?x] by (simp add: noOptions_def)
  with x k have b: "getListenFilter exampleHost None ?x
      = Inl (NotAList ''artist_name'' ''exclude.yml'')"
    by blast
  have "\<exists>cs cs'. parseConditions None = Inr cs
      \<and> loadOptional exampleHost (excludeList ?i) NE cs = Inr cs'"
    by (simp add: parseConditions_def loadOptional_def given_def noOptions_def)
  then have "includeList ?i = Some ''exclude.yml''
      \<and> (\<exists>cs cs'. parseConditions None = Inr cs
            \<and> loadOptional exampleHost (excludeList ?i) NE cs = Inr cs')
      \<and> (\<exists>minTs. timeBound exampleHost (after ?i) (Fin 0) = Inr minTs)
      \<and> (\<exists>maxTs. timeBound exampleHost (before ?i) PInf = Inr maxTs)"
    using lo [of ?i] hi [of ?i] by (simp add: noOptions_def)
  with i k have d: "getListenFilter exampleHost None ?i
      = Inl (NotAList ''artist_name'' ''exclude.yml'')"
    by blast
  show ?thesis
    by (intro conjI) (rule exampleHost_readYaml a b d)+
qed

section \<open>Properties of the modifier\<close>

lemma parse_artist_edit:
  "parseEdit ''artist_name=New Artist''
     = Inr \<lparr>edit_key = ''artist_name'', edit_value = ''New Artist''\<rparr>"
  by (simp add: parseEdit_def isWordChar_def isLineTerminator_def)

lemma isWordChar_equals: "\<not> isWordChar CHR ''=''"
  by (simp add: isWordChar_def)

lemma parseEdit_key_value:
  assumes "k \<noteq> []" and "\<forall>c\<in>set k. isWordChar c" and "\<forall>c\<in>set v. \<not> isLineTerminator c"
  shows "parseEdit (k @ ''='' @ v) = Inr \<lparr>edit_key = k, edit_value = v\<rparr>"
proof -
  from assms(2) have t: "takeWhile isWordChar (k @ ''='' @ v) = k"
    by (simp add: takeWhile_append2 isWordChar_equals)
  from assms(2) have d: "dropWhile isWordChar (k @ ''='' @ v) = ''='' @ v"
    by (simp add: dropWhile_append2 isWordChar_equals)
  from assms(3) have l: "takeWhile (\<lambda>c. \<not> isLineTerminator c) v = v"
    by (simp add: takeWhile_eq_all_conv)
  show ?thesis
    unfolding parseEdit_def Let_def t d using assms(1) l by simp
qed

lemma parseEdit_invalid:
  assumes "takeWhile isWordChar x = [] \<or> \<not> startsWith ''='' (dropWhile isWordChar x)"
  shows "parseEdit x = Inl (InvalidEditExpression x)"
  using assms by (auto simp add: parseEdit_def Let_def)

lemma applyEdit_primary:
  "applyEdit t \<lparr>edit_key = ''artist_name'', edit_value = v\<rparr> = t\<lparr>artist_name := v\<rparr>"
  "applyEdit t \<lparr>edit_key = ''track_name'', edit_value = v\<rparr> = t\<lparr>track_name := v\<rparr>"
  "applyEdit t \<lparr>edit_key = ''release_name'', edit_value = v\<rparr> = t\<lparr>release_name := Some v\<rparr>"
  by (simp_all add: applyEdit_def)

lemma applyEdit_secondary:
  assumes "k \<noteq> ''track_name'' \<and> k \<noteq> ''artist_name'' \<and> k \<noteq> ''release_name''"
  shows "applyEdit t \<lparr>edit_key = k, edit_value = v\<rparr> =
           t\<lparr>additional_info :=
               Some ((case additional_info t of None \<Rightarrow> Map.empty | Some m \<Rightarrow> m)
                       (k \<mapsto> Str v))\<rparr>"
  using assms by (simp add: applyEdit_def)

lemma listenModifier_steps:
  "listenModifier None l = l"
  "listenModifier (Some []) l = l"
  "listenModifier (Some (e # es)) l =
     listenModifier (Some es) (l\<lparr>track_metadata := applyEdit (track_metadata l) e\<rparr>)"
  by (simp_all add: listenModifier_def)

lemma getListenModifier_parsed:
  "mapResult parseEdit xs = Inr es \<Longrightarrow>
   getListenModifier (Some xs) = Inr (listenModifier (Some es))"
  "mapResult parseEdit xs = Inl err \<Longrightarrow> getListenModifier (Some xs) = Inl err"
  "getListenModifier None = Inr (listenModifier None)"
  by (simp_all add: getListenModifier_def)

text \<open>
  C5. The modifier built from \<open>artist_name=New Artist\<close> sets the artist name of a record
  to \<open>New Artist\<close> and changes nothing else. An expression \<open>key=value\<close> parses to the
  edit of that key and that value. An edit whose key is one of the three primary keys
  writes that primary field only; an edit with any other key leaves the primary fields
  alone and stores the value under its key in the secondary namespace, which it creates
  when it is absent, changing no other entry. The mutator applies the edits one after the
  other, in the order given, and never changes the timestamp; without expressions it
  changes nothing.
\<close>

theorem edit_writes_one_field:
  "getListenModifier (Some [''artist_name=New Artist''])
     = Inr (listenModifier (Some [\<lparr>edit_key = ''artist_name'', edit_value = ''New Artist''\<rparr>]))
   \<and> listenModifier (Some [\<lparr>edit_key = ''artist_name'', edit_value = ''New Artist''\<rparr>]) l
       = l\<lparr>track_metadata := (track_metadata l)\<lparr>artist_name := ''New Artist''\<rparr>\<rparr>
   \<and> applyEdit t \<lparr>edit_key = ''artist_name'', edit_value = v\<rparr> = t\<lparr>artist_name := v\<rparr>
   \<and> applyEdit t \<lparr>edit_key = ''track_name'', edit_value = v\<rparr> = t\<lparr>track_name := v\<rparr>
   \<and> applyEdit t \<lparr>edit_key = ''release_name'', edit_value = v\<rparr> = t\<lparr>release_name := Some v\<rparr>
   \<and> (k \<noteq> ''track_name'' \<and> k \<noteq> ''artist_name'' \<and> k \<noteq> ''release_name'' \<longrightarrow>
        applyEdit t \<lparr>edit_key = k, edit_value = v\<rparr> =
          t\<lparr>additional_info :=
              Some ((case additional_info t of None \<Rightarrow> Map.empty | Some m \<Rightarrow> m)
                      (k \<mapsto> Str v))\<rparr>)
   \<and> listenModifier None l = l
   \<and> listenModifier (Some []) l = l
   \<and> listenModifier (Some (e # es)) l =
       listenModifier (Some es) (l\<lparr>track_metadata := applyEdit (track_metadata l) e\<rparr>)
   \<and> listened_at (listenModifier edits l) = listened_at l
   \<and> (kk \<noteq> [] \<and> (\<forall>c\<in>set kk. isWordChar c) \<and> (\<forall>c\<in>set vv. \<not> isLineTerminator c) \<longrightarrow>
        parseEdit (kk @ ''='' @ vv) = Inr \<lparr>edit_key = kk, edit_value = vv\<rparr>)
   \<and> (takeWhile isWordChar x = [] \<or> \<not> startsWith ''='' (dropWhile isWordChar x) \<longrightarrow>
        parseEdit x = Inl (InvalidEditExpression x))
   \<and> (\<forall>parsed. mapResult parseEdit xs = Inr parsed \<longrightarrow>
        getListenModifier (Some xs) = Inr (listenModifier (Some parsed)))
   \<and> (\<forall>err. mapResult parseEdit xs = Inl err \<longrightarrow> getListenModifier (Some xs) = Inl err)
   \<and> getListenModifier None = Inr (listenModifier None)"
proof (intro conjI allI impI)
  show "getListenModifier (Some [''artist_name=New Artist''])
      = Inr (listenModifier (Some [\<lparr>edit_key = ''artist_name'', edit_value = ''New Artist''\<rparr>]))"
    by (simp add: getListenModifier_def parse_artist_edit)
  show "listenModifier (Some [\<lparr>edit_key = ''artist_name'', edit_value = ''New Artist''\<rparr>]) l
      = l\<lparr>track_metadata := (track_metadata l)\<lparr>artist_name := ''New Artist''\<rparr>\<rparr>"
    by (simp add: listenModifier_def applyEdit_primary)
  show "applyEdit t \<lparr>edit_key = ''artist_name'', edit_value = v\<rparr> = t\<lparr>artist_name := v\<rparr>"
    by (rule applyEdit_primary)
  show "applyEdit t \<lparr>edit_key = ''track_name'', edit_value = v\<rparr> = t\<lparr>track_name := v\<rparr>"
    by (rule applyEdit_primary)
  show "applyEdit t \<lparr>edit_key = ''release_name'', edit_value = v\<rparr>
      = t\<lparr>release_name := Some v\<rparr>"
    by (rule applyEdit_primary)
  show "applyEdit t \<lparr>edit_key = k, edit_value = v\<rparr> =
      t\<lparr>additional_info :=
          Some ((case additional_info t of None \<Rightarrow> Map.empty | Some m \<Rightarrow> m)(k \<mapsto> Str v))\<rparr>"
    if "k \<noteq> ''track_name'' \<and> k \<noteq> ''artist_name'' \<and> k \<noteq> ''release_name''"
    using that by (rule applyEdit_secondary)
  show "listenModifier None l = l"
    by (rule listenModifier_steps)
  show "listenModifier (Some []) l = l"
    by (rule listenModifier_steps)
  show "listenModifier (Some (e # es)) l =
      listenModifier (Some es) (l\<lparr>track_metadata := applyEdit (track_metadata l) e\<rparr>)"
    by (rule listenModifier_steps)
  show "listened_at (listenModifier edits l) = listened_at l"
    by (simp add: listenModifier_def split: option.splits)
  show "parseEdit (kk @ ''='' @ vv) = Inr \<lparr>edit_key = kk, edit_value = vv\<rparr>"
    if "kk \<noteq> [] \<and> (\<forall>c\<in>set kk. isWordChar c) \<and> (\<forall>c\<in>set vv. \<not> isLineTerminator c)"
    using that by (intro parseEdit_key_value) simp_all
  show "parseEdit x = Inl (InvalidEditExpression x)"
    if "takeWhile isWordChar x = [] \<or> \<not> startsWith ''='' (dropWhile isWordChar x)"
    using that by (rule parseEdit_invalid)
  show "getListenModifier (Some xs) = Inr (listenModifier (Some parsed))"
    if "mapResult parseEdit xs = Inr parsed" for parsed
    using that by (rule getListenModifier_parsed)
  show "getListenModifier (Some xs) = Inl err"
    if "mapResult parseEdit xs = Inl err" for err
    using that by (rule getListenModifier_parsed)
  show "getListenModifier None = Inr (listenModifier None)"
    by (rule getListenModifier_parsed)
qed

theorem edit_writes_one_field_witness:
  "''genre'' \<noteq> ''track_name'' \<and> ''genre'' \<noteq> ''artist_name'' \<and> ''genre'' \<noteq> ''release_name''
   \<and> applyEdit (track_metadata (exampleListen 100)) \<lparr>edit_key = ''genre'', edit_value = ''rock''\<rparr>
       = \<lparr>artist_name = ''Old Artist'', track_name = ''Title'', release_name = None,
          additional_info =
            Some [''duration_ms'' \<mapsto> Num (Fin 50000), ''genre'' \<mapsto> Str ''rock'']\<rparr>
   \<and> parseEdit ''genre=rock'' = Inr \<lparr>edit_key = ''genre'', edit_value = ''rock''\<rparr>
   \<and> listenModifier (Some [\<lparr>edit_key = ''artist_name'', edit_value = ''New Artist''\<rparr>])
       (exampleListen 100)
       = \<lparr>listened_at = 100,
          track_metadata =
            \<lparr>artist_name = ''New Artist'', track_name = ''Title'', release_name = None,
             additional_info = Some [''duration_ms'' \<mapsto> Num (Fin 50000)]\<rparr>\<rparr>"
proof -
  let ?t = "track_metadata (exampleListen 100)"
  note r = edit_writes_one_field [of "exampleListen 100" ?t "''rock''" "''genre''"
      "\<lparr>edit_key = ''genre'', edit_value = ''rock''\<rparr>" "[]" None "''genre''" "''rock''" "[]" "[]"]
  have a: "''genre'' \<noteq> ''track_name'' \<and> ''genre'' \<noteq> ''artist_name''
      \<and> ''genre'' \<noteq> ''release_name''"
    by simp
  from r have "''genre'' \<noteq> ''track_name'' \<and> ''genre'' \<noteq> ''artist_name''
      \<and> ''genre'' \<noteq> ''release_name'' \<longrightarrow>
      applyEdit ?t \<lparr>edit_key = ''genre'', edit_value = ''rock''\<rparr> =
        ?t\<lparr>additional_info :=
            Some ((case additional_info ?t of None \<Rightarrow> Map.empty | Some m \<Rightarrow> m)
                    (''genre'' \<mapsto> Str ''rock''))\<rparr>"
    by (elim conjE)
  from this a have "applyEdit ?t \<lparr>edit_key = ''genre'', edit_value = ''rock''\<rparr> =
      ?t\<lparr>additional_info :=
          Some ((case additional_info ?t of None \<Rightarrow> Map.empty | Some m \<Rightarrow> m)
                  (''genre'' \<mapsto> Str ''rock''))\<rparr>"
    by (rule mp)
  then have b: "applyEdit ?t \<lparr>edit_key = ''genre'', edit_value = ''rock''\<rparr>
      = \<lparr>artist_name = ''Old Artist'', track_name = ''Title'', release_name = None,
         additional_info =
           Some [''duration_ms'' \<mapsto> Num (Fin 50000), ''genre'' \<mapsto> Str ''rock'']\<rparr>"
    by (simp add: exampleListen_def)
  from r have "''genre'' \<noteq> [] \<and> (\<forall>c\<in>set ''genre''. isWordChar c)
      \<and> (\<forall>c\<in>set ''rock''. \<not> isLineTerminator c) \<longrightarrow>
      parseEdit (''genre'' @ ''='' @ ''rock'') = Inr \<lparr>edit_key = ''genre'', edit_value = ''rock''\<rparr>"
    by (elim conjE)
  moreover have "''genre'' \<noteq> [] \<and> (\<forall>c\<in>set ''genre''. isWordChar c)
      \<and> (\<forall>c\<in>set ''rock''. \<not> isLineTerminator c)"
    by (simp add: isWordChar_def isLineTerminator_def)
  ultimately have "parseEdit (''genre'' @ ''='' @ ''rock'')
      = Inr \<lparr>edit_key = ''genre'', edit_value = ''rock''\<rparr>"
    by (rule mp)
  then have c: "parseEdit ''genre=rock'' = Inr \<lparr>edit_key = ''genre'', edit_value = ''rock''\<rparr>"
    by simp
  from r have "listenModifier (Some [\<lparr>edit_key = ''artist_name'', edit_value = ''New Artist''\<rparr>])
      (exampleListen 100)
      = (exampleListen 100)\<lparr>track_metadata := ?t\<lparr>artist_name := ''New Artist''\<rparr>\<rparr>"
    by (elim conjE)
  then have m: "listenModifier (Some [\<lparr>edit_key = ''artist_name'', edit_value = ''New Artist''\<rparr>])
      (exampleListen 100)
      = \<lparr>listened_at = 100,
         track_metadata =
           \<lparr>artist_name = ''New Artist'', track_name = ''Title'', release_name = None,
            additional_info = Some [''duration_ms'' \<mapsto> Num (Fin 50000)]\<rparr>\<rparr>"
    by (simp add: exampleListen_def)
  show ?thesis
    by (intro conjI) (rule a [THEN conjunct1] a [THEN conjunct2, THEN conjunct1]
        a [THEN conjunct2, THEN conjunct2] b c m)+
qed

end
